theory Spec2Isabelle
  imports Main
begin

section \<open>Python values\<close>

text \<open>
  The enumerations of \<^verbatim>\<open>audio.py\<close> and \<^verbatim>\<open>system.py\<close>. Several of them have a
  member called \<^verbatim>\<open>UNKNOWN\<close> or \<^verbatim>\<open>OFF\<close>, so every member carries the name of
  its class.
\<close>

datatype AudioOutputs =
  AudioOutputs_UNKNOWN | AudioOutputs_SPEAKER | AudioOutputs_SPEAKER_HDMI
  | AudioOutputs_HDMI | AudioOutputs_AUDIO_SYSTEM

datatype TvPosition = TvPosition_UNKNOWN | TvPosition_TABLE_TOP | TvPosition_WALL_MOUNT

datatype SubwooferPhase =
  SubwooferPhase_UNKNOWN | SubwooferPhase_NORMAL | SubwooferPhase_REVERSE

datatype VolumeDevice = VolumeDevice_UNKNOWN | VolumeDevice_SPEAKERS | VolumeDevice_HEADPHONES

datatype LedMode =
  LedMode_UNKNOWN | LedMode_DEMO | LedMode_AUTO_BRIGHTNESS | LedMode_DARK
  | LedMode_SIMPLE_RESPONSE | LedMode_OFF

datatype PowerSavingMode =
  PowerSavingMode_UNKNOWN | PowerSavingMode_OFF | PowerSavingMode_LOW
  | PowerSavingMode_HIGH | PowerSavingMode_PICTURE_OFF

text \<open>
  The values the operations receive as arguments, read from a decoded JSON response and
  return: \<^verbatim>\<open>None\<close>, booleans, integers, strings, lists, dicts and the members of the
  enumerations above. A dict is the list of its items in insertion order; where a key
  stands twice, the first item is the one a lookup finds. Characters are 8-bit, and
  floating point numbers are left out: no operation computes with one.
\<close>

datatype pyval =
    PNone
  | PBool bool
  | PInt int
  | PStr string
  | PList "pyval list"
  | PDict "(pyval \<times> pyval) list"
  | PAudioOutputs AudioOutputs
  | PTvPosition TvPosition
  | PSubwooferPhase SubwooferPhase
  | PVolumeDevice VolumeDevice
  | PLedMode LedMode
  | PPowerSavingMode PowerSavingMode
  | PDateTime string

text \<open>
  The exceptions. \<^verbatim>\<open>HttpError\<close> carries its \<^verbatim>\<open>error_code\<close> attribute, the code
  the device reported, or nothing when the failure has no code. The messages are left
  out: they are built by \<^verbatim>\<open>get_error_message\<close> and \<^verbatim>\<open>str(err)\<close> of
  \<^verbatim>\<open>errors.py\<close>, which is not among the source files.
\<close>

datatype error =
    HttpError "int option"
  | ApiError
  | BraviaApiError
  | BraviaInternalError
  | TypeError
  | ValueError
  | IndexError
  | KeyError
  | AttributeError
  | RecursionError
  | InvalidVersion
  | ParserError

text \<open>Sequencing of computations that may raise.\<close>

definition exc_bind :: "error + 'a \<Rightarrow> ('a \<Rightarrow> error + 'b) \<Rightarrow> error + 'b" where
  "exc_bind m f = (case m of Inl e \<Rightarrow> Inl e | Inr v \<Rightarrow> f v)"

text \<open>
  \<^verbatim>\<open>try: ... except HttpError as err: handler\<close>: the handler sees the error code,
  every other exception goes on.
\<close>

fun except_HttpError :: "error + 'a \<Rightarrow> (int option \<Rightarrow> error + 'a) \<Rightarrow> error + 'a" where
  "except_HttpError (Inl (HttpError error_code)) handler = handler error_code"
| "except_HttpError r handler = r"

subsection \<open>Built-in operations\<close>

text \<open>
  Keys of a dict are equal when they are the same value, or a boolean and the integer
  it counts as. Lists and dicts are not hashable.
\<close>

fun key_eq :: "pyval \<Rightarrow> pyval \<Rightarrow> bool" where
  "key_eq (PBool b) (PInt i) = (i = (if b then 1 else 0))"
| "key_eq (PInt i) (PBool b) = (i = (if b then 1 else 0))"
| "key_eq a b = (a = b)"

fun hashable :: "pyval \<Rightarrow> bool" where
  "hashable (PList xs) = False"
| "hashable (PDict kvs) = False"
| "hashable v = True"

fun dict_lookup :: "(pyval \<times> pyval) list \<Rightarrow> pyval \<Rightarrow> pyval option" where
  "dict_lookup [] k = None"
| "dict_lookup ((k', v) # kvs) k = (if key_eq k' k then Some v else dict_lookup kvs k)"

text \<open>\<^verbatim>\<open>d[k] = v\<close>: the value of an existing key is replaced, a new key is appended.\<close>

fun dict_setitem :: "(pyval \<times> pyval) list \<Rightarrow> pyval \<Rightarrow> pyval \<Rightarrow> (pyval \<times> pyval) list" where
  "dict_setitem [] k v = [(k, v)]"
| "dict_setitem ((k', v') # kvs) k v =
     (if key_eq k' k then (k', v) # kvs else (k', v') # dict_setitem kvs k v)"

fun dict_keys :: "(pyval \<times> pyval) list \<Rightarrow> pyval list" where
  "dict_keys [] = []"
| "dict_keys ((k, v) # kvs) = k # filter (\<lambda>k'. \<not> key_eq k k') (dict_keys kvs)"

text \<open>
  The position an integer index names in a sequence of \<open>n\<close> items, counted from the
  end when it is negative; nothing when it is out of range.
\<close>

definition seq_index :: "nat \<Rightarrow> int \<Rightarrow> nat option" where
  "seq_index n i =
     (if 0 \<le> i \<and> i < int n then Some (nat i)
      else if i < 0 \<and> - int n \<le> i then Some (nat (int n + i))
      else None)"

text \<open>\<^verbatim>\<open>x[key]\<close>. A boolean index counts as 0 or 1.\<close>

fun py_getitem :: "pyval \<Rightarrow> pyval \<Rightarrow> error + pyval" where
  "py_getitem (PDict kvs) k =
     (if \<not> hashable k then Inl TypeError
      else case dict_lookup kvs k of None \<Rightarrow> Inl KeyError | Some v \<Rightarrow> Inr v)"
| "py_getitem (PList xs) (PInt i) =
     (case seq_index (length xs) i of None \<Rightarrow> Inl IndexError | Some j \<Rightarrow> Inr (xs ! j))"
| "py_getitem (PList xs) (PBool b) =
     (case seq_index (length xs) (if b then 1 else 0) of
        None \<Rightarrow> Inl IndexError
      | Some j \<Rightarrow> Inr (xs ! j))"
| "py_getitem (PStr s) (PInt i) =
     (case seq_index (length s) i of None \<Rightarrow> Inl IndexError | Some j \<Rightarrow> Inr (PStr [s ! j]))"
| "py_getitem (PStr s) (PBool b) =
     (case seq_index (length s) (if b then 1 else 0) of
        None \<Rightarrow> Inl IndexError
      | Some j \<Rightarrow> Inr (PStr [s ! j]))"
| "py_getitem x k = Inl TypeError"

text \<open>\<^verbatim>\<open>x.get(key)\<close>: only a dict has the method.\<close>

fun py_get :: "pyval \<Rightarrow> pyval \<Rightarrow> error + pyval" where
  "py_get (PDict kvs) k =
     (if \<not> hashable k then Inl TypeError
      else case dict_lookup kvs k of None \<Rightarrow> Inr PNone | Some v \<Rightarrow> Inr v)"
| "py_get x k = Inl AttributeError"

text \<open>\<^verbatim>\<open>len(x)\<close>.\<close>

fun py_len :: "pyval \<Rightarrow> error + nat" where
  "py_len (PList xs) = Inr (length xs)"
| "py_len (PStr s) = Inr (length s)"
| "py_len (PDict kvs) = Inr (length (dict_keys kvs))"
| "py_len x = Inl TypeError"

text \<open>The truth value of \<^verbatim>\<open>x\<close> in a condition.\<close>

fun truthy :: "pyval \<Rightarrow> bool" where
  "truthy PNone = False"
| "truthy (PBool b) = b"
| "truthy (PInt i) = (i \<noteq> 0)"
| "truthy (PStr s) = (s \<noteq> [])"
| "truthy (PList xs) = (xs \<noteq> [])"
| "truthy (PDict kvs) = (kvs \<noteq> [])"
| "truthy v = True"

text \<open>\<^verbatim>\<open>sub in s\<close> on strings: \<^verbatim>\<open>sub\<close> stands somewhere in \<^verbatim>\<open>s\<close>.\<close>

fun str_contains :: "string \<Rightarrow> string \<Rightarrow> bool" where
  "str_contains [] sub = (sub = [])"
| "str_contains (c # cs) sub = (take (length sub) (c # cs) = sub \<or> str_contains cs sub)"

text \<open>\<^verbatim>\<open>"key" in x\<close> for a string \<^verbatim>\<open>key\<close>.\<close>

fun py_contains :: "pyval \<Rightarrow> string \<Rightarrow> error + bool" where
  "py_contains (PDict kvs) k = Inr (dict_lookup kvs (PStr k) \<noteq> None)"
| "py_contains (PList xs) k = Inr (PStr k \<in> set xs)"
| "py_contains (PStr s) k = Inr (str_contains s k)"
| "py_contains x k = Inl TypeError"

text \<open>\<^verbatim>\<open>for item in x\<close>: the items a loop over \<^verbatim>\<open>x\<close> sees.\<close>

fun py_iter :: "pyval \<Rightarrow> error + pyval list" where
  "py_iter (PList xs) = Inr xs"
| "py_iter (PStr s) = Inr (map (\<lambda>ch. PStr [ch]) s)"
| "py_iter (PDict kvs) = Inr (dict_keys kvs)"
| "py_iter x = Inl TypeError"

text \<open>\<^verbatim>\<open>type(x)\<close>.\<close>

datatype pytype =
  T_NoneType | T_bool | T_int | T_str | T_list | T_dict | T_AudioOutputs | T_TvPosition
  | T_SubwooferPhase | T_VolumeDevice | T_LedMode | T_PowerSavingMode | T_datetime

fun py_type :: "pyval \<Rightarrow> pytype" where
  "py_type PNone = T_NoneType"
| "py_type (PBool b) = T_bool"
| "py_type (PInt i) = T_int"
| "py_type (PStr s) = T_str"
| "py_type (PList xs) = T_list"
| "py_type (PDict kvs) = T_dict"
| "py_type (PAudioOutputs a) = T_AudioOutputs"
| "py_type (PTvPosition t) = T_TvPosition"
| "py_type (PSubwooferPhase p) = T_SubwooferPhase"
| "py_type (PVolumeDevice d) = T_VolumeDevice"
| "py_type (PLedMode m) = T_LedMode"
| "py_type (PPowerSavingMode m) = T_PowerSavingMode"
| "py_type (PDateTime d) = T_datetime"

text \<open>
  \<^verbatim>\<open>table.get(key)\<close> on a dict literal whose keys are strings: the entry, or nothing;
  a key that is not hashable raises.
\<close>

definition table_get :: "(string \<times> 'a) list \<Rightarrow> pyval \<Rightarrow> error + 'a option" where
  "table_get table key =
     (if \<not> hashable key then Inl TypeError
      else Inr (case key of PStr s \<Rightarrow> map_of table s | _ \<Rightarrow> None))"

text \<open>\<^verbatim>\<open>for item in items: body\<close>, where the body updates \<^verbatim>\<open>acc\<close> or raises.\<close>

fun for_each :: "'a list \<Rightarrow> 's \<Rightarrow> ('s \<Rightarrow> 'a \<Rightarrow> error + 's) \<Rightarrow> error + 's" where
  "for_each [] acc body = Inr acc"
| "for_each (item # items) acc body =
     (case body acc item of Inl e \<Rightarrow> Inl e | Inr acc' \<Rightarrow> for_each items acc' body)"

text \<open>\<^verbatim>\<open>str(n)\<close> of an integer.\<close>

definition digit_char :: "nat \<Rightarrow> char" where
  "digit_char d = ''0123456789'' ! d"

fun str_nat :: "nat \<Rightarrow> string" where
  "str_nat n = (if n < 10 then [digit_char n] else str_nat (n div 10) @ [digit_char (n mod 10)])"

definition str_int :: "int \<Rightarrow> string" where
  "str_int i = (if i < 0 then CHR ''-'' # str_nat (nat (- i)) else str_nat (nat i))"

text \<open>The decimal digits among the 8-bit characters.\<close>

definition is_digit :: "char \<Rightarrow> bool" where
  "is_digit ch = (ch \<in> set ''0123456789'')"

section \<open>The HTTP client and the other parts outside the source files\<close>

text \<open>
  A request as \<^verbatim>\<open>http_client.request\<close> receives it. \<^verbatim>\<open>params\<close> is \<^verbatim>\<open>None\<close>
  where the call gives none.
\<close>

record request =
  endpoint :: string
  method_name :: string
  params :: "pyval option"
  version :: string

text \<open>
  What the operations use and the source files do not hold, taken as parameters:
  \<^item> \<^verbatim>\<open>http_client.request\<close> (\<^verbatim>\<open>http.py\<close>): the decoded response, or the exception
    it raises;
  \<^item> \<^verbatim>\<open>ApiErrors.ILLEGAL_STATE.value\<close> and \<^verbatim>\<open>ApiErrors.ILLEGAL_ARGUMENT.value\<close>
    (\<^verbatim>\<open>errors.py\<close>);
  \<^item> \<^verbatim>\<open>coalesce_none_or_empty\<close> (\<^verbatim>\<open>util.py\<close>);
  \<^item> \<^verbatim>\<open>dateutil.parser.parse\<close>;
  \<^item> \<^verbatim>\<open>packaging.version.parse\<close> and the order \<^verbatim>\<open><\<close> of the versions it returns.
    A parsed version is kept as a list of numbers that stands for the library's
    object; which list a string gives, and which of two lists is the smaller version,
    is the library's to say.
\<close>

record env =
  http_request :: "request \<Rightarrow> error + pyval"
  ILLEGAL_STATE_value :: int
  ILLEGAL_ARGUMENT_value :: int
  coalesce_none_or_empty :: "pyval \<Rightarrow> pyval"
  date_parse :: "pyval \<Rightarrow> error + pyval"
  version_parse :: "pyval \<Rightarrow> error + nat list"
  version_less :: "nat list \<Rightarrow> nat list \<Rightarrow> bool"

text \<open>
  The client: the flag \<^verbatim>\<open>__initialized\<close> of \<^verbatim>\<open>BraviaClient\<close>, and the requests
  handed to the HTTP client so far, oldest first.
\<close>

record client =
  initialized :: bool
  sent :: "request list"

type_synonym 'a outcome = "(error + 'a) \<times> client"

definition st_bind :: "'a outcome \<Rightarrow> ('a \<Rightarrow> client \<Rightarrow> 'b outcome) \<Rightarrow> 'b outcome" where
  "st_bind m f = (case m of (Inl e, c) \<Rightarrow> (Inl e, c) | (Inr v, c) \<Rightarrow> f v c)"

text \<open>
  A request inside \<^verbatim>\<open>try: ... except HttpError as err: handler\<close>, followed by
  what the operation does with the response. The handler returns from the operation
  (\<open>Inr\<close>) or raises (\<open>Inl\<close>); an exception that is no \<^verbatim>\<open>HttpError\<close> goes on.
\<close>

definition try_request ::
  "env \<Rightarrow> request \<Rightarrow> (int option \<Rightarrow> error + pyval) \<Rightarrow> (pyval \<Rightarrow> error + pyval) \<Rightarrow>
   client \<Rightarrow> pyval outcome" where
  "try_request E r handler cont c =
     ((case http_request E r of
         Inr response \<Rightarrow> cont response
       | Inl e \<Rightarrow> (case e of HttpError error_code \<Rightarrow> handler error_code | _ \<Rightarrow> Inl e)),
      c\<lparr>sent := sent c @ [r]\<rparr>)"

text \<open>A request outside any \<^verbatim>\<open>try\<close>: every exception goes on.\<close>

definition plain_request ::
  "env \<Rightarrow> request \<Rightarrow> (pyval \<Rightarrow> error + pyval) \<Rightarrow> client \<Rightarrow> pyval outcome" where
  "plain_request E r cont c = (exc_bind (http_request E r) cont, c\<lparr>sent := sent c @ [r]\<rparr>)"

section \<open>The compatibility gate\<close>

definition getInterfaceInformation :: request where
  "getInterfaceInformation =
     \<lparr>endpoint = ''system'', method_name = ''getInterfaceInformation'', params = None,
      version = ''1.0''\<rparr>"

text \<open>The dict \<^verbatim>\<open>get_interface_information\<close> builds from the response.\<close>

definition interface_info_of :: "env \<Rightarrow> pyval \<Rightarrow> error + pyval" where
  "interface_info_of E response =
     exc_bind (py_get response (PStr ''productCategory'')) (\<lambda>product_category.
     exc_bind (py_get response (PStr ''productName'')) (\<lambda>product_name.
     exc_bind (py_get response (PStr ''modelName'')) (\<lambda>model_name.
     exc_bind (py_get response (PStr ''serverName'')) (\<lambda>server_name.
     exc_bind (py_get response (PStr ''interfaceVersion'')) (\<lambda>interface_version.
     Inr (PDict
       [(PStr ''product_category'', coalesce_none_or_empty E product_category),
        (PStr ''product_name'', coalesce_none_or_empty E product_name),
        (PStr ''model_name'', coalesce_none_or_empty E model_name),
        (PStr ''server_name'', coalesce_none_or_empty E server_name),
        (PStr ''interface_version'', coalesce_none_or_empty E interface_version)]))))))"

text \<open>
  Lines 56 to 66 of \<^verbatim>\<open>braviaclient.py\<close>: what \<^verbatim>\<open>initialize\<close> does with the
  interface information once it has it. \<^verbatim>\<open>a >= b\<close> on versions is \<^verbatim>\<open>not a < b\<close>.
\<close>

definition check_api_version :: "env \<Rightarrow> pyval \<Rightarrow> error + unit" where
  "check_api_version E interface_info =
     exc_bind (py_getitem interface_info (PStr ''interface_version'')) (\<lambda>api_version.
       if api_version = PNone then Inl ApiError
       else
         exc_bind (version_parse E api_version) (\<lambda>v.
         exc_bind (version_parse E (PStr ''4.0.0'')) (\<lambda>v4.
           if \<not> version_less E v v4 then Inl ApiError
           else
             exc_bind (version_parse E (PStr ''3.0.0'')) (\<lambda>v3.
               if version_less E v v3 then Inl ApiError
               else Inr ()))))"

text \<open>
  \<^verbatim>\<open>BraviaClient.initialize\<close> and \<^verbatim>\<open>System.get_interface_information\<close> call each
  other: \<^verbatim>\<open>initialize\<close> fetches the interface information, and
  \<^verbatim>\<open>get_interface_information\<close>, like every operation, starts with
  \<^verbatim>\<open>self.bravia_client.initialize()\<close>. \<^verbatim>\<open>depth\<close> is the number of nested calls the
  interpreter still allows; at its recursion limit the call raises
  \<^verbatim>\<open>RecursionError\<close>, which is no \<^verbatim>\<open>HttpError\<close> and so passes both handlers
  (\<^verbatim>\<open>http.HttpError\<close> in \<^verbatim>\<open>braviaclient.py\<close> is read as the \<^verbatim>\<open>HttpError\<close> of
  \<^verbatim>\<open>errors.py\<close>). On an initialized client \<^verbatim>\<open>initialize\<close> returns before it calls
  anything.
\<close>

fun initialize :: "nat \<Rightarrow> env \<Rightarrow> client \<Rightarrow> unit outcome"
  and get_interface_information :: "nat \<Rightarrow> env \<Rightarrow> client \<Rightarrow> pyval outcome"
where
  "initialize 0 E c = (if initialized c then (Inr (), c) else (Inl RecursionError, c))"
| "initialize (Suc depth) E c =
     (if initialized c then (Inr (), c)
      else
        (case get_interface_information depth E c of
           (r, c') \<Rightarrow>
             (case except_HttpError r (\<lambda>error_code. Inl ApiError) of
                Inl e \<Rightarrow> (Inl e, c')
              | Inr interface_info \<Rightarrow>
                  (case check_api_version E interface_info of
                     Inl e \<Rightarrow> (Inl e, c')
                   | Inr u \<Rightarrow> (Inr (), c'\<lparr>initialized := True\<rparr>)))))"
| "get_interface_information depth E c =
     st_bind (initialize depth E c) (\<lambda>u.
       try_request E getInterfaceInformation (\<lambda>error_code. Inl BraviaApiError)
         (interface_info_of E))"

section \<open>audio.py\<close>

text \<open>The error codes of the class \<^verbatim>\<open>ErrorCode\<close>.\<close>

definition ErrorCode_ILLEGAL_ARGUMENT :: int where
  "ErrorCode_ILLEGAL_ARGUMENT = 3"

definition ErrorCode_ILLEGAL_STATE :: int where
  "ErrorCode_ILLEGAL_STATE = 7"

definition ErrorCode_TARGET_NOT_SUPPORTED :: int where
  "ErrorCode_TARGET_NOT_SUPPORTED = 40800"

definition ErrorCode_VOLUME_OUT_OF_RANGE :: int where
  "ErrorCode_VOLUME_OUT_OF_RANGE = 40801"

subsection \<open>get_sound_settings\<close>

definition output_modes :: "(string \<times> AudioOutputs) list" where
  "output_modes =
     [(''speaker'', AudioOutputs_SPEAKER),
      (''speaker_hdmi'', AudioOutputs_SPEAKER_HDMI),
      (''hdmi'', AudioOutputs_HDMI),
      (''audioSystem'', AudioOutputs_AUDIO_SYSTEM)]"

text \<open>Lines 64 to 85: from the response to the result.\<close>

definition get_sound_settings_response :: "env \<Rightarrow> pyval \<Rightarrow> error + pyval" where
  "get_sound_settings_response E response =
     (case response of
        PList items \<Rightarrow>
          if length items > 1 then Inl BraviaApiError
          else
            exc_bind (py_getitem response (PInt 0)) (\<lambda>output_terminal.
            exc_bind (py_get output_terminal (PStr ''currentValue'')) (\<lambda>current_value.
            exc_bind (table_get output_modes current_value) (\<lambda>found.
              let current_output = (case found of Some m \<Rightarrow> m | None \<Rightarrow> AudioOutputs_UNKNOWN)
              in if current_output = AudioOutputs_UNKNOWN then Inl BraviaApiError
                 else
                   exc_bind (py_get output_terminal (PStr ''target'')) (\<lambda>target.
                     Inr (PDict
                       [(PStr ''name'', coalesce_none_or_empty E target),
                        (PStr ''output'', PAudioOutputs current_output)])))))
      | _ \<Rightarrow> Inl BraviaApiError)"

definition getSoundSettings :: request where
  "getSoundSettings =
     \<lparr>endpoint = ''audio'', method_name = ''getSoundSettings'',
      params = Some (PDict [(PStr ''target'', PStr ''outputTerminal'')]), version = ''1.1''\<rparr>"

definition get_sound_settings :: "nat \<Rightarrow> env \<Rightarrow> client \<Rightarrow> pyval outcome" where
  "get_sound_settings depth E c =
     st_bind (initialize depth E c) (\<lambda>u.
       try_request E getSoundSettings
         (\<lambda>error_code.
            if error_code = Some ErrorCode_ILLEGAL_ARGUMENT then Inr PNone
            else Inl BraviaApiError)
         (get_sound_settings_response E))"

subsection \<open>get_speaker_settings\<close>

definition valid_positions :: "(string \<times> TvPosition) list" where
  "valid_positions = [(''tableTop'', TvPosition_TABLE_TOP), (''wallMount'', TvPosition_WALL_MOUNT)]"

definition valid_sub_phases :: "(string \<times> SubwooferPhase) list" where
  "valid_sub_phases = [(''normal'', SubwooferPhase_NORMAL), (''reverse'', SubwooferPhase_REVERSE)]"

text \<open>The body of the loop of lines 118 to 148, on the dict \<^verbatim>\<open>settings\<close>.\<close>

definition speaker_setting ::
  "(pyval \<times> pyval) list \<Rightarrow> pyval \<Rightarrow> error + (pyval \<times> pyval) list" where
  "speaker_setting settings setting =
     exc_bind (py_get setting (PStr ''target'')) (\<lambda>target.
       if target = PStr ''tvPosition'' then
         exc_bind (py_get setting (PStr ''currentValue'')) (\<lambda>current_value.
         exc_bind (table_get valid_positions current_value) (\<lambda>found.
           let position = (case found of Some p \<Rightarrow> p | None \<Rightarrow> TvPosition_UNKNOWN)
           in if position = TvPosition_UNKNOWN then Inl BraviaApiError
              else Inr (dict_setitem settings (PStr ''tv_position'') (PTvPosition position))))
       else if target = PStr ''subwooferLevel'' then
         exc_bind (py_get setting (PStr ''currentValue'')) (\<lambda>current_value.
           Inr (dict_setitem settings (PStr ''subwoofer_level'') current_value))
       else if target = PStr ''subwooferFreq'' then
         exc_bind (py_get setting (PStr ''currentValue'')) (\<lambda>current_value.
           Inr (dict_setitem settings (PStr ''subwoofer_frequency'') current_value))
       else if target = PStr ''subwooferPhase'' then
         exc_bind (py_get setting (PStr ''currentValue'')) (\<lambda>current_value.
         exc_bind (table_get valid_sub_phases current_value) (\<lambda>found.
           let phase = (case found of Some p \<Rightarrow> p | None \<Rightarrow> SubwooferPhase_UNKNOWN)
           in if phase = SubwooferPhase_UNKNOWN then Inl BraviaApiError
              else Inr (dict_setitem settings (PStr ''subwoofer_phase'') (PSubwooferPhase phase))))
       else if target = PStr ''subwooferPower'' then
         exc_bind (py_get setting (PStr ''currentValue'')) (\<lambda>current_value.
           Inr (dict_setitem settings (PStr ''subwoofer_power'')
                  (PBool (current_value = PStr ''on''))))
       else Inr settings)"

text \<open>The dict \<^verbatim>\<open>settings\<close> of lines 100 to 106, before the loop.\<close>

definition initial_speaker_settings :: "(pyval \<times> pyval) list" where
  "initial_speaker_settings =
     [(PStr ''tv_position'', PNone),
      (PStr ''subwoofer_level'', PNone),
      (PStr ''subwoofer_frequency'', PNone),
      (PStr ''subwoofer_phase'', PNone),
      (PStr ''subwoofer_power'', PNone)]"

definition get_speaker_settings_response :: "pyval \<Rightarrow> error + pyval" where
  "get_speaker_settings_response response =
     (case response of
        PList items \<Rightarrow>
          exc_bind (for_each items initial_speaker_settings speaker_setting)
            (\<lambda>settings. Inr (PDict settings))
      | _ \<Rightarrow> Inl BraviaApiError)"

definition getSpeakerSettings :: request where
  "getSpeakerSettings =
     \<lparr>endpoint = ''audio'', method_name = ''getSpeakerSettings'',
      params = Some (PDict [(PStr ''target'', PStr [])]), version = ''1.0''\<rparr>"

definition get_speaker_settings :: "nat \<Rightarrow> env \<Rightarrow> client \<Rightarrow> pyval outcome" where
  "get_speaker_settings depth E c =
     st_bind (initialize depth E c) (\<lambda>u.
       plain_request E getSpeakerSettings get_speaker_settings_response)"

subsection \<open>get_volume_information\<close>

definition valid_devices :: "(string \<times> VolumeDevice) list" where
  "valid_devices = [(''speaker'', VolumeDevice_SPEAKERS), (''headphone'', VolumeDevice_HEADPHONES)]"

text \<open>The body of the loop of lines 166 to 180, on the list \<^verbatim>\<open>devices\<close>.\<close>

definition volume_device :: "pyval list \<Rightarrow> pyval \<Rightarrow> error + pyval list" where
  "volume_device devices this_device =
     exc_bind (py_get this_device (PStr ''target'')) (\<lambda>target.
     exc_bind (table_get valid_devices target) (\<lambda>device_type.
       case device_type of
         None \<Rightarrow> Inr devices
       | Some d \<Rightarrow>
           exc_bind (py_get this_device (PStr ''volume'')) (\<lambda>volume.
           exc_bind (py_get this_device (PStr ''mute'')) (\<lambda>mute.
           exc_bind (py_get this_device (PStr ''minVolume'')) (\<lambda>min_volume.
           exc_bind (py_get this_device (PStr ''maxVolume'')) (\<lambda>max_volume.
             Inr (devices @
               [PDict
                  [(PStr ''type'', PVolumeDevice d),
                   (PStr ''volume'', volume),
                   (PStr ''muted'', PBool (truthy mute)),
                   (PStr ''min_volume'', min_volume),
                   (PStr ''max_volume'', max_volume)]])))))))"

definition get_volume_information_response :: "pyval \<Rightarrow> error + pyval" where
  "get_volume_information_response response =
     (case response of
        PList items \<Rightarrow> exc_bind (for_each items [] volume_device) (\<lambda>devices. Inr (PList devices))
      | _ \<Rightarrow> Inl BraviaApiError)"

definition getVolumeInformation :: request where
  "getVolumeInformation =
     \<lparr>endpoint = ''audio'', method_name = ''getVolumeInformation'', params = None,
      version = ''1.0''\<rparr>"

definition get_volume_information :: "nat \<Rightarrow> env \<Rightarrow> client \<Rightarrow> pyval outcome" where
  "get_volume_information depth E c =
     st_bind (initialize depth E c) (\<lambda>u.
       plain_request E getVolumeInformation get_volume_information_response)"

subsection \<open>set_mute, mute, unmute\<close>

definition setAudioMute :: "pyval \<Rightarrow> request" where
  "setAudioMute mute =
     \<lparr>endpoint = ''audio'', method_name = ''setAudioMute'',
      params = Some (PDict [(PStr ''status'', mute)]), version = ''1.0''\<rparr>"

definition set_mute :: "nat \<Rightarrow> env \<Rightarrow> pyval \<Rightarrow> client \<Rightarrow> pyval outcome" where
  "set_mute depth E mute c =
     st_bind (initialize depth E c) (\<lambda>u c.
       if py_type mute \<noteq> T_bool then (Inl TypeError, c)
       else plain_request E (setAudioMute mute) (\<lambda>response. Inr PNone) c)"

definition mute :: "nat \<Rightarrow> env \<Rightarrow> client \<Rightarrow> pyval outcome" where
  "mute depth E c = set_mute depth E (PBool True) c"

definition unmute :: "nat \<Rightarrow> env \<Rightarrow> client \<Rightarrow> pyval outcome" where
  "unmute depth E c = set_mute depth E (PBool False) c"

subsection \<open>set_volume and the operations built on it\<close>

text \<open>
  \<^verbatim>\<open>re.match(r'^[+-]\d+$', volume)\<close> finds a match: a sign, one digit or more, and then
  the end of the string or one line feed that ends it. Among 8-bit characters the
  decimal digits are \<^verbatim>\<open>0\<close> to \<^verbatim>\<open>9\<close>.
\<close>

definition volume_format :: "string \<Rightarrow> bool" where
  "volume_format s =
     (case s of
        [] \<Rightarrow> False
      | sign # rest \<Rightarrow>
          (sign = CHR ''+'' \<or> sign = CHR ''-'') \<and>
          takeWhile is_digit rest \<noteq> [] \<and>
          (dropWhile is_digit rest = [] \<or> dropWhile is_digit rest = [CHR 0x0A]))"

text \<open>\<^verbatim>\<open>str(volume)\<close>, for the integers and strings that reach line 258.\<close>

fun py_str :: "pyval \<Rightarrow> string" where
  "py_str (PInt i) = str_int i"
| "py_str (PStr s) = s"
| "py_str v = []"

definition valid_requested_devices :: "VolumeDevice \<Rightarrow> string option" where
  "valid_requested_devices d =
     (if d = VolumeDevice_SPEAKERS then Some ''speaker''
      else if d = VolumeDevice_HEADPHONES then Some ''headphone''
      else None)"

definition setAudioVolume :: "string \<Rightarrow> pyval \<Rightarrow> pyval \<Rightarrow> request" where
  "setAudioVolume target volume show_ui =
     \<lparr>endpoint = ''audio'', method_name = ''setAudioVolume'',
      params = Some (PDict
        [(PStr ''target'', PStr target),
         (PStr ''volume'', PStr (py_str volume)),
         (PStr ''ui'', PStr (if truthy show_ui then ''on'' else ''off''))]),
      version = ''1.2''\<rparr>"

text \<open>Lines 241 to 250: the target the request names.\<close>

definition volume_target :: "pyval \<Rightarrow> error + string" where
  "volume_target device =
     (if device = PNone then Inr []
      else
        (case (case device of PVolumeDevice d \<Rightarrow> valid_requested_devices d | _ \<Rightarrow> None) of
           None \<Rightarrow> Inl BraviaApiError
         | Some target \<Rightarrow> Inr target))"

text \<open>
  \<^verbatim>\<open>set_volume\<close>. Line 234 prints the volume (\<^verbatim>\<open>pprint\<close>); the output stream is
  not part of the state here.
\<close>

definition set_volume :: "nat \<Rightarrow> env \<Rightarrow> pyval \<Rightarrow> pyval \<Rightarrow> pyval \<Rightarrow> client \<Rightarrow> pyval outcome" where
  "set_volume depth E volume show_ui device c =
     st_bind (initialize depth E c) (\<lambda>u c.
       if device \<noteq> PNone \<and> py_type device \<noteq> T_VolumeDevice then (Inl TypeError, c)
       else if device = PVolumeDevice VolumeDevice_UNKNOWN then (Inl ValueError, c)
       else if py_type volume \<noteq> T_int \<and> py_type volume \<noteq> T_str then (Inl TypeError, c)
       else if py_type volume = T_str \<and> \<not> volume_format (py_str volume) then (Inl ValueError, c)
       else if py_type show_ui \<noteq> T_bool then (Inl TypeError, c)
       else
         (case volume_target device of
            Inl e \<Rightarrow> (Inl e, c)
          | Inr target \<Rightarrow>
              try_request E (setAudioVolume target volume show_ui)
                (\<lambda>error_code.
                   if error_code = Some ErrorCode_TARGET_NOT_SUPPORTED then Inl BraviaApiError
                   else if error_code = Some ErrorCode_VOLUME_OUT_OF_RANGE then Inl BraviaApiError
                   else Inl BraviaApiError)
                (\<lambda>response. Inr PNone) c))"

definition set_volume_level ::
  "nat \<Rightarrow> env \<Rightarrow> pyval \<Rightarrow> pyval \<Rightarrow> pyval \<Rightarrow> client \<Rightarrow> pyval outcome" where
  "set_volume_level depth E volume show_ui device c =
     (if py_type volume \<noteq> T_int then (Inl TypeError, c)
      else set_volume depth E volume show_ui device c)"

definition increase_volume ::
  "nat \<Rightarrow> env \<Rightarrow> pyval \<Rightarrow> pyval \<Rightarrow> pyval \<Rightarrow> client \<Rightarrow> pyval outcome" where
  "increase_volume depth E increase_by show_ui device c =
     (if py_type increase_by \<noteq> T_int then (Inl TypeError, c)
      else set_volume depth E (PStr (''+'' @ py_str increase_by)) show_ui device c)"

definition decrease_volume ::
  "nat \<Rightarrow> env \<Rightarrow> pyval \<Rightarrow> pyval \<Rightarrow> pyval \<Rightarrow> client \<Rightarrow> pyval outcome" where
  "decrease_volume depth E decrease_by show_ui device c =
     (if py_type decrease_by \<noteq> T_int then (Inl TypeError, c)
      else set_volume depth E (PStr (''-'' @ py_str decrease_by)) show_ui device c)"

section \<open>system.py\<close>

subsection \<open>set_power_status, power_on, power_off\<close>

definition setPowerStatus :: "pyval \<Rightarrow> request" where
  "setPowerStatus power_state =
     \<lparr>endpoint = ''system'', method_name = ''setPowerStatus'',
      params = Some (PDict [(PStr ''status'', power_state)]), version = ''1.0''\<rparr>"

definition set_power_status :: "nat \<Rightarrow> env \<Rightarrow> pyval \<Rightarrow> client \<Rightarrow> pyval outcome" where
  "set_power_status depth E power_state c =
     st_bind (initialize depth E c) (\<lambda>u c.
       if py_type power_state \<noteq> T_bool then (Inl TypeError, c)
       else
         try_request E (setPowerStatus power_state) (\<lambda>error_code. Inl BraviaApiError)
           (\<lambda>response. Inr PNone) c)"

definition power_on :: "nat \<Rightarrow> env \<Rightarrow> client \<Rightarrow> pyval outcome" where
  "power_on depth E c =
     st_bind (initialize depth E c) (\<lambda>u. set_power_status depth E (PBool True))"

definition power_off :: "nat \<Rightarrow> env \<Rightarrow> client \<Rightarrow> pyval outcome" where
  "power_off depth E c =
     st_bind (initialize depth E c) (\<lambda>u. set_power_status depth E (PBool False))"

subsection \<open>get_power_status\<close>

text \<open>Lines 64 to 70.\<close>

definition get_power_status_response :: "pyval \<Rightarrow> error + pyval" where
  "get_power_status_response response =
     exc_bind (py_getitem response (PStr ''status'')) (\<lambda>status.
       if status = PStr ''standby'' then Inr (PBool False)
       else if status = PStr ''active'' then Inr (PBool True)
       else Inl BraviaApiError)"

definition getPowerStatus :: request where
  "getPowerStatus =
     \<lparr>endpoint = ''system'', method_name = ''getPowerStatus'', params = None,
      version = ''1.0''\<rparr>"

definition get_power_status :: "nat \<Rightarrow> env \<Rightarrow> client \<Rightarrow> pyval outcome" where
  "get_power_status depth E c =
     st_bind (initialize depth E c) (\<lambda>u.
       try_request E getPowerStatus (\<lambda>error_code. Inl BraviaApiError)
         get_power_status_response)"

subsection \<open>get_current_time\<close>

definition getCurrentTime :: request where
  "getCurrentTime =
     \<lparr>endpoint = ''system'', method_name = ''getCurrentTime'', params = None,
      version = ''1.1''\<rparr>"

text \<open>
  Here the \<^verbatim>\<open>try\<close> holds the request and the parsing of the date, so the handler
  sees an \<^verbatim>\<open>HttpError\<close> of either.
\<close>

definition get_current_time :: "nat \<Rightarrow> env \<Rightarrow> client \<Rightarrow> pyval outcome" where
  "get_current_time depth E c =
     st_bind (initialize depth E c) (\<lambda>u c.
       (except_HttpError
          (exc_bind (http_request E getCurrentTime) (\<lambda>response.
           exc_bind (py_getitem response (PStr ''dateTime'')) (date_parse E)))
          (\<lambda>error_code.
             if error_code = Some (ILLEGAL_STATE_value E) then Inr PNone
             else Inl BraviaApiError),
        c\<lparr>sent := sent c @ [getCurrentTime]\<rparr>))"

subsection \<open>get_led_status\<close>

definition led_valid_modes :: "(string \<times> LedMode) list" where
  "led_valid_modes =
     [(''Demo'', LedMode_DEMO),
      (''AutoBrightnessAdjust'', LedMode_AUTO_BRIGHTNESS),
      (''Dark'', LedMode_DARK),
      (''SimpleResponse'', LedMode_SIMPLE_RESPONSE),
      (''Off'', LedMode_OFF)]"

text \<open>Lines 114 to 119: the value of \<^verbatim>\<open>led_status\<close>.\<close>

definition led_status_of :: "pyval \<Rightarrow> error + pyval" where
  "led_status_of response =
     exc_bind (py_contains response ''status'') (\<lambda>has_status.
       if has_status then
         exc_bind (py_getitem response (PStr ''status'')) (\<lambda>status.
           if status = PStr ''true'' then Inr (PBool True)
           else if status = PStr ''false'' then Inr (PBool False)
           else Inr PNone)
       else Inr PNone)"

text \<open>Lines 121 to 133: the value of \<^verbatim>\<open>led_mode\<close>.\<close>

definition led_mode_of :: "pyval \<Rightarrow> error + pyval" where
  "led_mode_of response =
     exc_bind (py_contains response ''mode'') (\<lambda>has_mode.
       if has_mode then
         exc_bind (py_get response (PStr ''mode'')) (\<lambda>mode.
         exc_bind (table_get led_valid_modes mode) (\<lambda>found.
           let led_mode = (case found of Some m \<Rightarrow> m | None \<Rightarrow> LedMode_UNKNOWN)
           in if led_mode = LedMode_UNKNOWN then Inl BraviaApiError
              else Inr (PLedMode led_mode)))
       else Inr PNone)"

definition get_led_status_response :: "pyval \<Rightarrow> error + pyval" where
  "get_led_status_response response =
     exc_bind (led_status_of response) (\<lambda>led_status.
     exc_bind (led_mode_of response) (\<lambda>led_mode.
       Inr (PDict [(PStr ''status'', led_status), (PStr ''mode'', led_mode)])))"

definition getLEDIndicatorStatus :: request where
  "getLEDIndicatorStatus =
     \<lparr>endpoint = ''system'', method_name = ''getLEDIndicatorStatus'', params = None,
      version = ''1.0''\<rparr>"

definition get_led_status :: "nat \<Rightarrow> env \<Rightarrow> client \<Rightarrow> pyval outcome" where
  "get_led_status depth E c =
     st_bind (initialize depth E c) (\<lambda>u.
       try_request E getLEDIndicatorStatus (\<lambda>error_code. Inl BraviaApiError)
         get_led_status_response)"

subsection \<open>get_network_settings\<close>

text \<open>The body of the loop of lines 166 to 176.\<close>

definition network_interface :: "env \<Rightarrow> pyval list \<Rightarrow> pyval \<Rightarrow> error + pyval list" where
  "network_interface E network_interfaces iface =
     exc_bind (py_get iface (PStr ''netif'')) (\<lambda>netif.
     exc_bind (py_get iface (PStr ''hwAddr'')) (\<lambda>hw_addr.
     exc_bind (py_get iface (PStr ''ipAddrV4'')) (\<lambda>ip_v4.
     exc_bind (py_get iface (PStr ''ipAddrV6'')) (\<lambda>ip_v6.
     exc_bind (py_get iface (PStr ''netmask'')) (\<lambda>netmask.
     exc_bind (py_get iface (PStr ''gateway'')) (\<lambda>gateway.
     exc_bind (py_get iface (PStr ''dns'')) (\<lambda>dns.
       Inr (network_interfaces @
         [PDict
            [(PStr ''name'', coalesce_none_or_empty E netif),
             (PStr ''mac'', coalesce_none_or_empty E hw_addr),
             (PStr ''ip_v4'', coalesce_none_or_empty E ip_v4),
             (PStr ''ip_v6'', coalesce_none_or_empty E ip_v6),
             (PStr ''netmask'', coalesce_none_or_empty E netmask),
             (PStr ''gateway'', coalesce_none_or_empty E gateway),
             (PStr ''dns_servers'', coalesce_none_or_empty E dns)]]))))))))"

text \<open>Lines 162 to 182.\<close>

definition get_network_settings_response :: "env \<Rightarrow> pyval \<Rightarrow> pyval \<Rightarrow> error + pyval" where
  "get_network_settings_response E interface response =
     (case response of
        PList items \<Rightarrow>
          exc_bind (for_each items [] (network_interface E)) (\<lambda>network_interfaces.
            if interface \<noteq> PNone then py_getitem (PList network_interfaces) (PInt 0)
            else Inr (PList network_interfaces))
      | _ \<Rightarrow> Inl BraviaApiError)"

definition getNetworkSettings :: "pyval \<Rightarrow> request" where
  "getNetworkSettings request_interface =
     \<lparr>endpoint = ''system'', method_name = ''getNetworkSettings'',
      params = Some (PDict [(PStr ''netif'', request_interface)]), version = ''1.0''\<rparr>"

definition get_network_settings :: "nat \<Rightarrow> env \<Rightarrow> pyval \<Rightarrow> client \<Rightarrow> pyval outcome" where
  "get_network_settings depth E interface c =
     st_bind (initialize depth E c) (\<lambda>u c.
       let request_interface = (if truthy interface then interface else PStr [])
       in if py_type request_interface \<noteq> T_str then (Inl TypeError, c)
          else
            try_request E (getNetworkSettings request_interface)
              (\<lambda>error_code.
                 if error_code = Some (ILLEGAL_ARGUMENT_value E) then Inr PNone
                 else Inl BraviaApiError)
              (get_network_settings_response E interface) c)"

subsection \<open>get_power_saving_mode\<close>

definition power_saving_valid_modes :: "(string \<times> PowerSavingMode) list" where
  "power_saving_valid_modes =
     [(''off'', PowerSavingMode_OFF),
      (''low'', PowerSavingMode_LOW),
      (''high'', PowerSavingMode_HIGH),
      (''pictureOff'', PowerSavingMode_PICTURE_OFF)]"

definition get_power_saving_mode_response :: "pyval \<Rightarrow> error + pyval" where
  "get_power_saving_mode_response response =
     exc_bind (py_contains response ''mode'') (\<lambda>has_mode.
     exc_bind
       (if has_mode then
          exc_bind (py_get response (PStr ''mode'')) (\<lambda>mode.
          exc_bind (table_get power_saving_valid_modes mode) (\<lambda>found.
            let saving_mode = (case found of Some m \<Rightarrow> m | None \<Rightarrow> PowerSavingMode_UNKNOWN)
            in if saving_mode = PowerSavingMode_UNKNOWN then Inl BraviaApiError
               else Inr (PPowerSavingMode saving_mode)))
        else Inr PNone)
       (\<lambda>saving_mode. Inr (PDict [(PStr ''mode'', saving_mode)])))"

definition getPowerSavingMode :: request where
  "getPowerSavingMode =
     \<lparr>endpoint = ''system'', method_name = ''getPowerSavingMode'', params = None,
      version = ''1.0''\<rparr>"

definition get_power_saving_mode :: "nat \<Rightarrow> env \<Rightarrow> client \<Rightarrow> pyval outcome" where
  "get_power_saving_mode depth E c =
     st_bind (initialize depth E c) (\<lambda>u.
       try_request E getPowerSavingMode (\<lambda>error_code. Inl BraviaApiError)
         get_power_saving_mode_response)"

subsection \<open>get_remote_control_info\<close>

text \<open>
  The body of the loop of lines 222 and 223. The right-hand side is evaluated first,
  then the key, and a key that is not hashable raises.
\<close>

definition button_code ::
  "(pyval \<times> pyval) list \<Rightarrow> pyval \<Rightarrow> error + (pyval \<times> pyval) list" where
  "button_code button_codes button =
     exc_bind (py_getitem button (PStr ''value'')) (\<lambda>button_value.
     exc_bind (py_getitem button (PStr ''name'')) (\<lambda>button_name.
       if \<not> hashable button_name then Inl TypeError
       else Inr (dict_setitem button_codes button_name button_value)))"

definition get_remote_control_info_response :: "pyval \<Rightarrow> error + pyval" where
  "get_remote_control_info_response response =
     exc_bind (py_len response) (\<lambda>n.
       if n \<noteq> 2 then Inl BraviaApiError
       else
         exc_bind (py_getitem response (PInt 1)) (\<lambda>buttons.
         exc_bind (py_iter buttons) (\<lambda>items.
         exc_bind (for_each items [] button_code) (\<lambda>button_codes.
           Inr (PDict button_codes)))))"

definition getRemoteControllerInfo :: request where
  "getRemoteControllerInfo =
     \<lparr>endpoint = ''system'', method_name = ''getRemoteControllerInfo'', params = None,
      version = ''1.0''\<rparr>"

definition get_remote_control_info :: "nat \<Rightarrow> env \<Rightarrow> client \<Rightarrow> pyval outcome" where
  "get_remote_control_info depth E c =
     st_bind (initialize depth E c) (\<lambda>u.
       try_request E getRemoteControllerInfo (\<lambda>error_code. Inl BraviaApiError)
         get_remote_control_info_response)"

subsection \<open>get_remote_access_status\<close>

text \<open>
  Lines 240 to 251. The message of the last \<^verbatim>\<open>raise\<close> is built from
  \<^verbatim>\<open>response["currentValue"]\<close>, which is evaluated before the exception exists.
\<close>

definition get_remote_access_status_response :: "pyval \<Rightarrow> error + pyval" where
  "get_remote_access_status_response response =
     exc_bind (py_len response) (\<lambda>n.
       if n \<noteq> 1 then Inl BraviaApiError
       else
         exc_bind (py_getitem response (PInt 0)) (\<lambda>setting.
         exc_bind (py_getitem setting (PStr ''currentValue'')) (\<lambda>current_value.
           if current_value = PStr ''on'' then Inr (PBool True)
           else if current_value = PStr ''false'' then Inr (PBool False)
           else
             exc_bind (py_getitem response (PStr ''currentValue'')) (\<lambda>shown.
               Inl BraviaApiError))))"

definition getRemoteDeviceSettings :: request where
  "getRemoteDeviceSettings =
     \<lparr>endpoint = ''system'', method_name = ''getRemoteDeviceSettings'',
      params = Some (PDict [(PStr ''target'', PStr ''accessPermission'')]), version = ''1.0''\<rparr>"

definition get_remote_access_status :: "nat \<Rightarrow> env \<Rightarrow> client \<Rightarrow> pyval outcome" where
  "get_remote_access_status depth E c =
     st_bind (initialize depth E c) (\<lambda>u.
       try_request E getRemoteDeviceSettings (\<lambda>error_code. Inl BraviaApiError)
         get_remote_access_status_response)"

subsection \<open>get_system_information\<close>

definition get_system_information_response :: "env \<Rightarrow> pyval \<Rightarrow> error + pyval" where
  "get_system_information_response E response =
     exc_bind (py_get response (PStr ''product'')) (\<lambda>product.
     exc_bind (py_get response (PStr ''language'')) (\<lambda>language.
     exc_bind (py_get response (PStr ''model'')) (\<lambda>model.
     exc_bind (py_get response (PStr ''serial'')) (\<lambda>serial.
     exc_bind (py_get response (PStr ''macAddr'')) (\<lambda>mac_addr.
     exc_bind (py_get response (PStr ''name'')) (\<lambda>name.
     exc_bind (py_get response (PStr ''generation'')) (\<lambda>generation.
       Inr (PDict
         [(PStr ''product'', coalesce_none_or_empty E product),
          (PStr ''language'', coalesce_none_or_empty E language),
          (PStr ''model'', coalesce_none_or_empty E model),
          (PStr ''serial'', coalesce_none_or_empty E serial),
          (PStr ''mac'', coalesce_none_or_empty E mac_addr),
          (PStr ''name'', coalesce_none_or_empty E name),
          (PStr ''generation'', coalesce_none_or_empty E generation)]))))))))"

definition getSystemInformation :: request where
  "getSystemInformation =
     \<lparr>endpoint = ''system'', method_name = ''getSystemInformation'', params = None,
      version = ''1.0''\<rparr>"

definition get_system_information :: "nat \<Rightarrow> env \<Rightarrow> client \<Rightarrow> pyval outcome" where
  "get_system_information depth E c =
     st_bind (initialize depth E c) (\<lambda>u.
       try_request E getSystemInformation (\<lambda>error_code. Inl BraviaApiError)
         (get_system_information_response E))"

subsection \<open>get_wake_on_lan_information\<close>

definition get_wake_on_lan_information_response :: "pyval \<Rightarrow> error + pyval" where
  "get_wake_on_lan_information_response response =
     exc_bind (py_len response) (\<lambda>n.
       if n \<noteq> 1 then Inl BraviaApiError
       else
         exc_bind (py_getitem response (PInt 0)) (\<lambda>wol_info.
         exc_bind (py_getitem wol_info (PStr ''option'')) (\<lambda>option_name.
           if option_name \<noteq> PStr ''WOL'' then Inl BraviaApiError
           else
             exc_bind (py_getitem wol_info (PStr ''value'')) (\<lambda>mac.
               Inr (PDict [(PStr ''mac'', mac)])))))"

definition getSystemSupportedFunction :: request where
  "getSystemSupportedFunction =
     \<lparr>endpoint = ''system'', method_name = ''getSystemSupportedFunction'', params = None,
      version = ''1.0''\<rparr>"

definition get_wake_on_lan_information :: "nat \<Rightarrow> env \<Rightarrow> client \<Rightarrow> pyval outcome" where
  "get_wake_on_lan_information depth E c =
     st_bind (initialize depth E c) (\<lambda>u.
       try_request E getSystemSupportedFunction (\<lambda>error_code. Inl BraviaApiError)
         get_wake_on_lan_information_response)"

subsection \<open>get_wake_on_lan_status\<close>

definition get_wake_on_lan_status_response :: "pyval \<Rightarrow> error + pyval" where
  "get_wake_on_lan_status_response response =
     exc_bind (py_get response (PStr ''enabled'')) (\<lambda>enabled.
       if enabled = PNone \<or> py_type enabled \<noteq> T_bool then Inl BraviaApiError
       else Inr enabled)"

definition getWolMode :: request where
  "getWolMode =
     \<lparr>endpoint = ''system'', method_name = ''getWolMode'', params = None, version = ''1.0''\<rparr>"

definition get_wake_on_lan_status :: "nat \<Rightarrow> env \<Rightarrow> client \<Rightarrow> pyval outcome" where
  "get_wake_on_lan_status depth E c =
     st_bind (initialize depth E c) (\<lambda>u.
       try_request E getWolMode (\<lambda>error_code. Inl BraviaApiError)
         get_wake_on_lan_status_response)"

subsection \<open>request_reboot\<close>

definition requestReboot :: request where
  "requestReboot =
     \<lparr>endpoint = ''system'', method_name = ''requestReboot'', params = None,
      version = ''1.0''\<rparr>"

definition request_reboot :: "nat \<Rightarrow> env \<Rightarrow> client \<Rightarrow> pyval outcome" where
  "request_reboot depth E c =
     st_bind (initialize depth E c) (\<lambda>u.
       try_request E requestReboot (\<lambda>error_code. Inl BraviaApiError) (\<lambda>response. Inr PNone))"

subsection \<open>set_led_status\<close>

text \<open>\<^verbatim>\<open>modes.get(mode, LedMode.UNKNOWN)\<close> of lines 326 to 333.\<close>

definition led_sent_mode :: "LedMode \<Rightarrow> pyval" where
  "led_sent_mode mode =
     (case mode of
        LedMode_AUTO_BRIGHTNESS \<Rightarrow> PStr ''AutoBrightnessAdjust''
      | LedMode_DARK \<Rightarrow> PStr ''Dark''
      | LedMode_SIMPLE_RESPONSE \<Rightarrow> PStr ''SimpleResponse''
      | LedMode_DEMO \<Rightarrow> PStr ''Demo''
      | LedMode_OFF \<Rightarrow> PStr ''Off''
      | LedMode_UNKNOWN \<Rightarrow> PLedMode LedMode_UNKNOWN)"

definition setLEDIndicatorStatus :: "pyval \<Rightarrow> pyval \<Rightarrow> request" where
  "setLEDIndicatorStatus sent_mode enabled =
     \<lparr>endpoint = ''system'', method_name = ''setLEDIndicatorStatus'',
      params = Some (PDict
        (if enabled \<noteq> PNone then [(PStr ''mode'', sent_mode), (PStr ''status'', enabled)]
         else [(PStr ''mode'', sent_mode)])),
      version = ''1.1''\<rparr>"

definition set_led_status :: "nat \<Rightarrow> env \<Rightarrow> pyval \<Rightarrow> pyval \<Rightarrow> client \<Rightarrow> pyval outcome" where
  "set_led_status depth E mode enabled c =
     st_bind (initialize depth E c) (\<lambda>u c.
       if enabled \<noteq> PNone \<and> py_type enabled \<noteq> T_bool then (Inl TypeError, c)
       else
         (case mode of
            PLedMode m \<Rightarrow>
              if m = LedMode_UNKNOWN then (Inl ValueError, c)
              else if led_sent_mode m = PLedMode LedMode_UNKNOWN then (Inl BraviaInternalError, c)
              else
                try_request E (setLEDIndicatorStatus (led_sent_mode m) enabled)
                  (\<lambda>error_code.
                     if error_code = Some (ILLEGAL_STATE_value E)
                        \<or> error_code = Some (ILLEGAL_ARGUMENT_value E)
                     then Inl BraviaApiError
                     else Inl BraviaApiError)
                  (\<lambda>response. Inr PNone) c
          | _ \<Rightarrow> (Inl TypeError, c)))"

subsection \<open>set_language\<close>

definition setLanguage :: "pyval \<Rightarrow> request" where
  "setLanguage language =
     \<lparr>endpoint = ''system'', method_name = ''setLanguage'',
      params = Some (PDict [(PStr ''language'', language)]), version = ''1.0''\<rparr>"

definition set_language :: "nat \<Rightarrow> env \<Rightarrow> pyval \<Rightarrow> client \<Rightarrow> pyval outcome" where
  "set_language depth E language c =
     st_bind (initialize depth E c) (\<lambda>u c.
       if py_type language \<noteq> T_str then (Inl TypeError, c)
       else
         try_request E (setLanguage language)
           (\<lambda>error_code.
              if error_code = Some (ILLEGAL_ARGUMENT_value E) then Inl BraviaApiError
              else Inl BraviaApiError)
           (\<lambda>response. Inr PNone) c)"

subsection \<open>set_power_saving_mode\<close>

text \<open>\<^verbatim>\<open>modes.get(mode, PowerSavingMode.UNKNOWN)\<close> of lines 382 to 388.\<close>

definition power_saving_sent_mode :: "PowerSavingMode \<Rightarrow> pyval" where
  "power_saving_sent_mode mode =
     (case mode of
        PowerSavingMode_OFF \<Rightarrow> PStr ''off''
      | PowerSavingMode_LOW \<Rightarrow> PStr ''low''
      | PowerSavingMode_HIGH \<Rightarrow> PStr ''high''
      | PowerSavingMode_PICTURE_OFF \<Rightarrow> PStr ''pictureOff''
      | PowerSavingMode_UNKNOWN \<Rightarrow> PPowerSavingMode PowerSavingMode_UNKNOWN)"

definition setPowerSavingMode :: "pyval \<Rightarrow> request" where
  "setPowerSavingMode sent_mode =
     \<lparr>endpoint = ''system'', method_name = ''setPowerSavingMode'',
      params = Some (PDict [(PStr ''mode'', sent_mode)]), version = ''1.0''\<rparr>"

definition set_power_saving_mode :: "nat \<Rightarrow> env \<Rightarrow> pyval \<Rightarrow> client \<Rightarrow> pyval outcome" where
  "set_power_saving_mode depth E mode c =
     st_bind (initialize depth E c) (\<lambda>u c.
       (case mode of
          PPowerSavingMode m \<Rightarrow>
            if m = PowerSavingMode_UNKNOWN then (Inl ValueError, c)
            else if power_saving_sent_mode m = PPowerSavingMode PowerSavingMode_UNKNOWN
            then (Inl BraviaInternalError, c)
            else
              try_request E (setPowerSavingMode (power_saving_sent_mode m))
                (\<lambda>error_code. Inl BraviaApiError) (\<lambda>response. Inr PNone) c
        | _ \<Rightarrow> (Inl TypeError, c)))"

subsection \<open>set_wake_on_lan_status\<close>

definition setWolMode :: "pyval \<Rightarrow> request" where
  "setWolMode enabled =
     \<lparr>endpoint = ''system'', method_name = ''setWolMode'',
      params = Some (PDict [(PStr ''enabled'', enabled)]), version = ''1.0''\<rparr>"

definition set_wake_on_lan_status :: "nat \<Rightarrow> env \<Rightarrow> pyval \<Rightarrow> client \<Rightarrow> pyval outcome" where
  "set_wake_on_lan_status depth E enabled c =
     st_bind (initialize depth E c) (\<lambda>u c.
       if py_type enabled \<noteq> T_bool then (Inl TypeError, c)
       else
         try_request E (setWolMode enabled) (\<lambda>error_code. Inl BraviaApiError)
           (\<lambda>response. Inr PNone) c)"

section \<open>The public operations\<close>

text \<open>A call of a public operation of \<^verbatim>\<open>Audio\<close> or \<^verbatim>\<open>System\<close>, with its arguments.\<close>

datatype operation =
    Get_sound_settings
  | Get_speaker_settings
  | Get_volume_information
  | Mute
  | Unmute
  | Set_mute pyval
  | Set_volume_level pyval pyval pyval
  | Increase_volume pyval pyval pyval
  | Decrease_volume pyval pyval pyval
  | Set_volume pyval pyval pyval
  | Power_on
  | Power_off
  | Set_power_status pyval
  | Get_power_status
  | Get_current_time
  | Get_interface_information
  | Get_led_status
  | Get_network_settings pyval
  | Get_power_saving_mode
  | Get_remote_control_info
  | Get_remote_access_status
  | Get_system_information
  | Get_wake_on_lan_information
  | Get_wake_on_lan_status
  | Request_reboot
  | Set_led_status pyval pyval
  | Set_language pyval
  | Set_power_saving_mode pyval
  | Set_wake_on_lan_status pyval

fun perform :: "nat \<Rightarrow> env \<Rightarrow> operation \<Rightarrow> client \<Rightarrow> pyval outcome" where
  "perform depth E Get_sound_settings c = get_sound_settings depth E c"
| "perform depth E Get_speaker_settings c = get_speaker_settings depth E c"
| "perform depth E Get_volume_information c = get_volume_information depth E c"
| "perform depth E Mute c = mute depth E c"
| "perform depth E Unmute c = unmute depth E c"
| "perform depth E (Set_mute m) c = set_mute depth E m c"
| "perform depth E (Set_volume_level volume show_ui device) c =
     set_volume_level depth E volume show_ui device c"
| "perform depth E (Increase_volume increase_by show_ui device) c =
     increase_volume depth E increase_by show_ui device c"
| "perform depth E (Decrease_volume decrease_by show_ui device) c =
     decrease_volume depth E decrease_by show_ui device c"
| "perform depth E (Set_volume volume show_ui device) c =
     set_volume depth E volume show_ui device c"
| "perform depth E Power_on c = power_on depth E c"
| "perform depth E Power_off c = power_off depth E c"
| "perform depth E (Set_power_status power_state) c = set_power_status depth E power_state c"
| "perform depth E Get_power_status c = get_power_status depth E c"
| "perform depth E Get_current_time c = get_current_time depth E c"
| "perform depth E Get_interface_information c = get_interface_information depth E c"
| "perform depth E Get_led_status c = get_led_status depth E c"
| "perform depth E (Get_network_settings interface) c = get_network_settings depth E interface c"
| "perform depth E Get_power_saving_mode c = get_power_saving_mode depth E c"
| "perform depth E Get_remote_control_info c = get_remote_control_info depth E c"
| "perform depth E Get_remote_access_status c = get_remote_access_status depth E c"
| "perform depth E Get_system_information c = get_system_information depth E c"
| "perform depth E Get_wake_on_lan_information c = get_wake_on_lan_information depth E c"
| "perform depth E Get_wake_on_lan_status c = get_wake_on_lan_status depth E c"
| "perform depth E Request_reboot c = request_reboot depth E c"
| "perform depth E (Set_led_status mode enabled) c = set_led_status depth E mode enabled c"
| "perform depth E (Set_language language) c = set_language depth E language c"
| "perform depth E (Set_power_saving_mode mode) c = set_power_saving_mode depth E mode c"
| "perform depth E (Set_wake_on_lan_status enabled) c = set_wake_on_lan_status depth E enabled c"

section \<open>A device for concrete runs\<close>

text \<open>
  The version parser of this device reads release versions only, \<^verbatim>\<open>N(.N)*\<close>: the
  numbers, without the zeros at the end (\<^verbatim>\<open>3.0\<close> and \<^verbatim>\<open>3.0.0\<close> are the same
  version), compared from the left. It takes every other string as invalid.
\<close>

definition digit_value :: "char \<Rightarrow> nat" where
  "digit_value ch = length (takeWhile (\<lambda>d. d \<noteq> ch) ''0123456789'')"

definition nat_of_digits :: "string \<Rightarrow> nat" where
  "nat_of_digits ds = foldl (\<lambda>n ch. 10 * n + digit_value ch) 0 ds"

fun split_dots :: "string \<Rightarrow> string list" where
  "split_dots [] = [[]]"
| "split_dots (ch # cs) =
     (if ch = CHR ''.'' then [] # split_dots cs
      else case split_dots cs of w # ws \<Rightarrow> (ch # w) # ws | [] \<Rightarrow> [[ch]])"

fun strip_zeros :: "nat list \<Rightarrow> nat list" where
  "strip_zeros [] = []"
| "strip_zeros (n # ns) = (case strip_zeros ns of [] \<Rightarrow> (if n = 0 then [] else [n]) | ms \<Rightarrow> n # ms)"

definition release_parse :: "pyval \<Rightarrow> error + nat list" where
  "release_parse v =
     (case v of
        PStr s \<Rightarrow>
          (if list_all (\<lambda>w. w \<noteq> [] \<and> list_all is_digit w) (split_dots s)
           then Inr (strip_zeros (map nat_of_digits (split_dots s)))
           else Inl InvalidVersion)
      | _ \<Rightarrow> Inl TypeError)"

fun release_less :: "nat list \<Rightarrow> nat list \<Rightarrow> bool" where
  "release_less [] [] = False"
| "release_less [] (b # bs) = True"
| "release_less (a # as) [] = False"
| "release_less (a # as) (b # bs) = (a < b \<or> (a = b \<and> release_less as bs))"

text \<open>
  An environment whose device gives the same answer to every request. The error codes
  of \<^verbatim>\<open>ApiErrors\<close> are taken as those of \<^verbatim>\<open>ErrorCode\<close>, \<^verbatim>\<open>coalesce_none_or_empty\<close>
  turns the empty string into \<^verbatim>\<open>None\<close>, a date is kept as its text, and versions are
  the release versions above.
\<close>

definition answering :: "error + pyval \<Rightarrow> env" where
  "answering answer =
     \<lparr>http_request = (\<lambda>r. answer),
      ILLEGAL_STATE_value = 7,
      ILLEGAL_ARGUMENT_value = 3,
      coalesce_none_or_empty = (\<lambda>v. if v = PStr [] then PNone else v),
      date_parse = (\<lambda>v. case v of PStr s \<Rightarrow> Inr (PDateTime s) | _ \<Rightarrow> Inl TypeError),
      version_parse = release_parse,
      version_less = release_less\<rparr>"

definition new_client :: client where
  "new_client = \<lparr>initialized = False, sent = []\<rparr>"

definition initialized_client :: client where
  "initialized_client = \<lparr>initialized = True, sent = []\<rparr>"

text \<open>The requests an operation hands to the HTTP client, in the order it sends them.\<close>

definition requests_of :: "nat \<Rightarrow> env \<Rightarrow> operation \<Rightarrow> client \<Rightarrow> request list" where
  "requests_of depth E op c = drop (length (sent c)) (sent (snd (perform depth E op c)))"

section \<open>The gate on a client that is not initialized\<close>

lemma initialize_not_initialized:
  "\<not> initialized c \<Longrightarrow> initialize depth E c = (Inl RecursionError, c)"
proof (induction depth)
  case 0
  then show ?case by simp
next
  case (Suc depth)
  then show ?case by (simp add: st_bind_def)
qed

lemma initialize_initialized: "initialized c \<Longrightarrow> initialize depth E c = (Inr (), c)"
  by (cases depth) simp_all

declare initialize.simps [simp del]

section \<open>Requests and the gate\<close>

lemma gate_initialized: "initialized c \<Longrightarrow> st_bind (initialize depth E c) f = f () c"
  by (simp add: st_bind_def initialize_initialized)

lemma gate_not_initialized:
  "\<not> initialized c \<Longrightarrow> st_bind (initialize depth E c) f = (Inl RecursionError, c)"
  by (simp add: st_bind_def initialize_not_initialized)

lemma try_request_Inr:
  "http_request E r = Inr response \<Longrightarrow>
   try_request E r handler cont c = (cont response, c\<lparr>sent := sent c @ [r]\<rparr>)"
  by (simp add: try_request_def)

lemma try_request_HttpError:
  "http_request E r = Inl (HttpError error_code) \<Longrightarrow>
   try_request E r handler cont c = (handler error_code, c\<lparr>sent := sent c @ [r]\<rparr>)"
  by (simp add: try_request_def)

lemma try_request_sent: "snd (try_request E r handler cont c) = c\<lparr>sent := sent c @ [r]\<rparr>"
  by (simp add: try_request_def)

lemma plain_request_sent: "snd (plain_request E r cont c) = c\<lparr>sent := sent c @ [r]\<rparr>"
  by (simp add: plain_request_def)

lemmas operation_defs =
  get_sound_settings_def get_speaker_settings_def get_volume_information_def mute_def
  unmute_def set_mute_def set_volume_level_def increase_volume_def decrease_volume_def
  set_volume_def power_on_def power_off_def set_power_status_def get_power_status_def
  get_current_time_def get_led_status_def get_network_settings_def
  get_power_saving_mode_def get_remote_control_info_def get_remote_access_status_def
  get_system_information_def get_wake_on_lan_information_def get_wake_on_lan_status_def
  request_reboot_def set_led_status_def set_language_def set_power_saving_mode_def
  set_wake_on_lan_status_def

lemma perform_not_initialized:
  "\<not> initialized c \<Longrightarrow> snd (perform depth E op c) = c"
  by (cases op) (simp_all add: operation_defs gate_not_initialized)

lemma perform_sent:
  "initialized c \<Longrightarrow>
   snd (perform depth E op c) = c \<or> (\<exists>r. snd (perform depth E op c) = c\<lparr>sent := sent c @ [r]\<rparr>)"
  by (cases op)
    (auto simp: operation_defs gate_initialized try_request_sent plain_request_sent Let_def
      split: sum.splits pyval.splits)


lemma requests_of_cases:
  "requests_of depth E op c = [] \<or> (\<exists>r. requests_of depth E op c = [r])"
proof (cases "initialized c")
  case True
  from perform_sent [OF True, of depth E op] show ?thesis
    by (auto simp: requests_of_def)
next
  case False
  then show ?thesis by (simp add: requests_of_def perform_not_initialized)
qed

lemmas request_defs =
  getSoundSettings_def getSpeakerSettings_def getVolumeInformation_def setAudioMute_def
  setAudioVolume_def setPowerStatus_def getPowerStatus_def getCurrentTime_def
  getLEDIndicatorStatus_def getNetworkSettings_def getPowerSavingMode_def
  getRemoteControllerInfo_def getRemoteDeviceSettings_def getSystemInformation_def
  getSystemSupportedFunction_def getWolMode_def requestReboot_def
  setLEDIndicatorStatus_def setLanguage_def setPowerSavingMode_def setWolMode_def

lemma other_requests:
  "initialized c \<Longrightarrow> op \<noteq> Get_interface_information \<Longrightarrow>
   getInterfaceInformation \<notin> set (requests_of depth E op c)"
  by (cases op)
    (auto simp: requests_of_def operation_defs gate_initialized try_request_sent
      plain_request_sent Let_def request_defs getInterfaceInformation_def
      split: sum.splits pyval.splits)

lemma exc_bind_Inr_iff:
  "exc_bind m f = Inr y \<longleftrightarrow> (\<exists>v. m = Inr v \<and> f v = Inr y)"
  by (cases m) (simp_all add: exc_bind_def)

lemma exc_bind_Inr [simp]: "exc_bind (Inr v) f = f v"
  by (simp add: exc_bind_def)

lemma exc_bind_Inl [simp]: "exc_bind (Inl e) f = Inl e"
  by (simp add: exc_bind_def)

lemma try_request_handler_raises:
  assumes "\<And>error_code. handler error_code = Inl BraviaApiError"
  shows "fst (try_request E r handler cont c) = Inr y \<longleftrightarrow>
         (\<exists>response. http_request E r = Inr response \<and> cont response = Inr y)"
  using assms by (auto simp: try_request_def split: sum.splits error.splits)

lemma gate_initialized_client:
  "st_bind (initialize depth E initialized_client) f = f () initialized_client"
  by (simp add: gate_initialized initialized_client_def)

lemma answering_request [simp]: "http_request (answering answer) r = answer"
  by (simp add: answering_def)

section \<open>The compatibility check\<close>

lemma release_parse_numerals:
  "release_parse (PStr ''3.0.0'') = Inr [3]" "release_parse (PStr ''4.0.0'') = Inr [4]"
  by (simp_all add: release_parse_def is_digit_def nat_of_digits_def digit_value_def)

text \<open>
  Claim C1. \<^verbatim>\<open>initialize\<close> is meant to fetch the interface information, to raise
  \<^verbatim>\<open>ApiError\<close> when the version is missing or outside 3.0.0 up to, not including, 4.0.0,
  and to mark the client initialized otherwise. On a new client it does none of this:
  \<^verbatim>\<open>get_interface_information\<close> calls \<^verbatim>\<open>initialize\<close> again before it sends
  anything, so for a device that reports version 3.0.0 the call ends in
  \<^verbatim>\<open>RecursionError\<close> at every recursion limit, with no request sent and the client
  still not initialized, although the version check of lines 56 to 66 accepts the
  interface information the device would give.
\<close>

theorem initialize_new_client_RecursionError:
  "initialize depth (answering (Inr (PDict [(PStr ''interfaceVersion'', PStr ''3.0.0'')])))
     new_client = (Inl RecursionError, new_client)
   \<and> \<not> initialized new_client \<and> sent new_client = []
   \<and> exc_bind
        (interface_info_of
           (answering (Inr (PDict [(PStr ''interfaceVersion'', PStr ''3.0.0'')])))
           (PDict [(PStr ''interfaceVersion'', PStr ''3.0.0'')]))
        (check_api_version
           (answering (Inr (PDict [(PStr ''interfaceVersion'', PStr ''3.0.0'')]))))
       = Inr ()"
  by (simp add: initialize_not_initialized new_client_def interface_info_of_def
      check_api_version_def answering_def release_parse_numerals)

theorem initialize_new_client_RecursionError_witness:
  "initialize 1000 (answering (Inr (PDict [(PStr ''interfaceVersion'', PStr ''3.0.0'')])))
     new_client = (Inl RecursionError, new_client)"
  by (rule initialize_new_client_RecursionError [of 1000, THEN conjunct1])

text \<open>
  Claim C2. The check is made at most once: on an initialized client \<^verbatim>\<open>initialize\<close>
  returns at once and leaves the client, the list of requests included, as it was; a
  client on which \<^verbatim>\<open>initialize\<close> has returned normally is such a client, for every
  later call and device; no operation sends more than one request for the interface
  information; and on an initialized client only \<^verbatim>\<open>get_interface_information\<close>
  itself sends one.
\<close>

theorem compatibility_check_once:
  "(initialized c \<longrightarrow> initialize depth E c = (Inr (), c))
   \<and> (initialize depth E c = (Inr (), c') \<longrightarrow>
        (\<forall>depth' E'. initialize depth' E' c' = (Inr (), c')))
   \<and> length (filter (\<lambda>r. r = getInterfaceInformation) (requests_of depth E op c)) \<le> 1
   \<and> (initialized c \<and> op \<noteq> Get_interface_information \<longrightarrow>
        getInterfaceInformation \<notin> set (requests_of depth E op c))"
proof (intro conjI impI allI)
  assume "initialized c"
  then show "initialize depth E c = (Inr (), c)" by (rule initialize_initialized)
next
  fix depth' E'
  assume ok: "initialize depth E c = (Inr (), c')"
  have "initialized c"
  proof (rule ccontr)
    assume "\<not> initialized c"
    then have "initialize depth E c = (Inl RecursionError, c)"
      by (rule initialize_not_initialized)
    with ok show False by simp
  qed
  with ok have "c' = c" by (simp add: initialize_initialized)
  with \<open>initialized c\<close> show "initialize depth' E' c' = (Inr (), c')"
    by (simp add: initialize_initialized)
next
  from requests_of_cases [of depth E op c]
  show "length (filter (\<lambda>r. r = getInterfaceInformation) (requests_of depth E op c)) \<le> 1"
    by auto
next
  assume "initialized c \<and> op \<noteq> Get_interface_information"
  then show "getInterfaceInformation \<notin> set (requests_of depth E op c)"
    by (simp add: other_requests)
qed

theorem compatibility_check_once_witness:
  "initialized initialized_client
   \<and> initialize 2 (answering (Inr PNone)) initialized_client = (Inr (), initialized_client)
   \<and> initialize 5 (answering (Inl (HttpError None))) initialized_client
       = (Inr (), initialized_client)
   \<and> Get_power_status \<noteq> Get_interface_information
   \<and> getInterfaceInformation
       \<notin> set (requests_of 2 (answering (Inr PNone)) Get_power_status initialized_client)"
proof -
  have i: "initialized initialized_client" by (simp add: initialized_client_def)
  note t = compatibility_check_once [where c = initialized_client and depth = 2
      and E = "answering (Inr PNone)" and c' = initialized_client and op = Get_power_status]
  from t i have a: "initialize 2 (answering (Inr PNone)) initialized_client
      = (Inr (), initialized_client)" by blast
  with t have b: "initialize 5 (answering (Inl (HttpError None))) initialized_client
      = (Inr (), initialized_client)" by blast
  from t i have c: "getInterfaceInformation
       \<notin> set (requests_of 2 (answering (Inr PNone)) Get_power_status initialized_client)"
    by simp
  from i a b c show ?thesis by simp
qed


section \<open>Power status\<close>

text \<open>
  Claim C6. \<^verbatim>\<open>get_power_status\<close> returns \<^verbatim>\<open>True\<close> exactly when the client is
  initialized and the device reports the status \<^verbatim>\<open>active\<close>, returns \<^verbatim>\<open>False\<close>
  exactly when it is initialized and the device reports \<^verbatim>\<open>standby\<close>, and raises
  \<^verbatim>\<open>BraviaApiError\<close>, after its one request, for every other status the device
  reports.
\<close>

theorem get_power_status_reported:
  "(fst (get_power_status depth E c) = Inr (PBool True) \<longleftrightarrow>
      initialized c \<and>
      (\<exists>response. http_request E getPowerStatus = Inr response
         \<and> py_getitem response (PStr ''status'') = Inr (PStr ''active'')))
   \<and> (fst (get_power_status depth E c) = Inr (PBool False) \<longleftrightarrow>
      initialized c \<and>
      (\<exists>response. http_request E getPowerStatus = Inr response
         \<and> py_getitem response (PStr ''status'') = Inr (PStr ''standby'')))
   \<and> (initialized c \<and> http_request E getPowerStatus = Inr response
        \<and> py_getitem response (PStr ''status'') = Inr status
        \<and> status \<noteq> PStr ''active'' \<and> status \<noteq> PStr ''standby'' \<longrightarrow>
      get_power_status depth E c
        = (Inl BraviaApiError, c\<lparr>sent := sent c @ [getPowerStatus]\<rparr>))"
proof (cases "initialized c")
  case False
  then show ?thesis by (simp add: get_power_status_def gate_not_initialized)
next
  case True
  have decode: "get_power_status_response r = Inr (PBool b) \<longleftrightarrow>
      py_getitem r (PStr ''status'') = Inr (PStr (if b then ''active'' else ''standby''))" for r b
    by (cases "py_getitem r (PStr ''status'')") (auto simp: get_power_status_response_def)
  have other: "get_power_status_response r = Inl BraviaApiError"
    if "py_getitem r (PStr ''status'') = Inr st" "st \<noteq> PStr ''active''" "st \<noteq> PStr ''standby''"
    for r st
    using that by (simp add: get_power_status_response_def)
  have run: "get_power_status depth E c =
      try_request E getPowerStatus (\<lambda>error_code. Inl BraviaApiError) get_power_status_response c"
    using True by (simp add: get_power_status_def gate_initialized)
  have t: "fst (get_power_status depth E c) = Inr (PBool True) \<longleftrightarrow>
      (\<exists>response. http_request E getPowerStatus = Inr response
         \<and> py_getitem response (PStr ''status'') = Inr (PStr ''active''))"
    using decode [of _ True] by (simp add: run try_request_handler_raises)
  have f: "fst (get_power_status depth E c) = Inr (PBool False) \<longleftrightarrow>
      (\<exists>response. http_request E getPowerStatus = Inr response
         \<and> py_getitem response (PStr ''status'') = Inr (PStr ''standby''))"
    using decode [of _ False] by (simp add: run try_request_handler_raises)
  from True t f show ?thesis
    by (auto simp: run try_request_Inr other)
qed


theorem get_power_status_reported_witness:
  "fst (get_power_status 1 (answering (Inr (PDict [(PStr ''status'', PStr ''active'')])))
         initialized_client) = Inr (PBool True)
   \<and> fst (get_power_status 1 (answering (Inr (PDict [(PStr ''status'', PStr ''standby'')])))
         initialized_client) = Inr (PBool False)
   \<and> get_power_status 1 (answering (Inr (PDict [(PStr ''status'', PStr ''booting'')])))
         initialized_client
       = (Inl BraviaApiError, initialized_client\<lparr>sent := sent initialized_client @ [getPowerStatus]\<rparr>)"
proof -
  have i: "initialized initialized_client" by (simp add: initialized_client_def)
  have a: "http_request (answering (Inr v)) getPowerStatus = Inr v" for v
    by (simp add: answering_def)
  have g: "py_getitem (PDict [(PStr ''status'', PStr s)]) (PStr ''status'') = Inr (PStr s)" for s
    by simp
  have 1: "fst (get_power_status 1 (answering (Inr (PDict [(PStr ''status'', PStr ''active'')])))
         initialized_client) = Inr (PBool True)"
    using get_power_status_reported
      [of 1 "answering (Inr (PDict [(PStr ''status'', PStr ''active'')]))" initialized_client]
      i a g by simp
  have 2: "fst (get_power_status 1 (answering (Inr (PDict [(PStr ''status'', PStr ''standby'')])))
         initialized_client) = Inr (PBool False)"
    using get_power_status_reported
      [of 1 "answering (Inr (PDict [(PStr ''status'', PStr ''standby'')]))" initialized_client]
      i a g by simp
  have 3: "get_power_status 1 (answering (Inr (PDict [(PStr ''status'', PStr ''booting'')])))
         initialized_client
       = (Inl BraviaApiError, initialized_client\<lparr>sent := sent initialized_client @ [getPowerStatus]\<rparr>)"
    using get_power_status_reported
      [of 1 "answering (Inr (PDict [(PStr ''status'', PStr ''booting'')]))" initialized_client
         "PDict [(PStr ''status'', PStr ''booting'')]" "PStr ''booting''"]
      i a g by simp
  from 1 2 3 show ?thesis by simp
qed

section \<open>Remote access status\<close>

lemma get_remote_access_status_response_True:
  "get_remote_access_status_response response = Inr (PBool True) \<Longrightarrow>
   \<exists>setting. py_getitem response (PInt 0) = Inr setting
     \<and> py_getitem setting (PStr ''currentValue'') = Inr (PStr ''on'')"
  by (auto simp: get_remote_access_status_response_def exc_bind_Inr_iff split: if_splits)

lemma get_remote_access_status_response_False:
  "get_remote_access_status_response response = Inr (PBool False) \<Longrightarrow>
   \<exists>setting. py_getitem response (PInt 0) = Inr setting
     \<and> py_getitem setting (PStr ''currentValue'') = Inr (PStr ''false'')"
  by (auto simp: get_remote_access_status_response_def exc_bind_Inr_iff split: if_splits)

lemma get_remote_access_status_response_off:
  "py_getitem response (PInt 0) = Inr setting \<Longrightarrow>
   py_getitem setting (PStr ''currentValue'') = Inr (PStr ''off'') \<Longrightarrow>
   \<exists>e. get_remote_access_status_response response = Inl e"
  by (cases "py_len response"; cases "py_getitem response (PStr ''currentValue'')")
    (simp_all add: get_remote_access_status_response_def)

text \<open>
  Claim C10. \<^verbatim>\<open>get_remote_access_status\<close> returns \<^verbatim>\<open>True\<close> only when the device
  reports the value \<^verbatim>\<open>on\<close> and \<^verbatim>\<open>False\<close> only when it reports the string
  \<^verbatim>\<open>false\<close>; a response whose value is \<^verbatim>\<open>off\<close> never gives a boolean: the call
  ends in an exception.
\<close>

theorem get_remote_access_status_values:
  "(fst (get_remote_access_status depth E c) = Inr (PBool True) \<longrightarrow>
      (\<exists>response setting. http_request E getRemoteDeviceSettings = Inr response
         \<and> py_getitem response (PInt 0) = Inr setting
         \<and> py_getitem setting (PStr ''currentValue'') = Inr (PStr ''on'')))
   \<and> (fst (get_remote_access_status depth E c) = Inr (PBool False) \<longrightarrow>
      (\<exists>response setting. http_request E getRemoteDeviceSettings = Inr response
         \<and> py_getitem response (PInt 0) = Inr setting
         \<and> py_getitem setting (PStr ''currentValue'') = Inr (PStr ''false'')))
   \<and> (http_request E getRemoteDeviceSettings = Inr response
        \<and> py_getitem response (PInt 0) = Inr setting
        \<and> py_getitem setting (PStr ''currentValue'') = Inr (PStr ''off'') \<longrightarrow>
      (\<exists>e. fst (get_remote_access_status depth E c) = Inl e))"
proof (cases "initialized c")
  case False
  then show ?thesis by (simp add: get_remote_access_status_def gate_not_initialized)
next
  case True
  have run: "get_remote_access_status depth E c =
      try_request E getRemoteDeviceSettings (\<lambda>error_code. Inl BraviaApiError)
        get_remote_access_status_response c"
    using True by (simp add: get_remote_access_status_def gate_initialized)
  have t: "\<exists>response setting. http_request E getRemoteDeviceSettings = Inr response
         \<and> py_getitem response (PInt 0) = Inr setting
         \<and> py_getitem setting (PStr ''currentValue'') = Inr (PStr ''on'')"
    if "fst (get_remote_access_status depth E c) = Inr (PBool True)"
  proof -
    from that obtain response where r: "http_request E getRemoteDeviceSettings = Inr response"
      and d: "get_remote_access_status_response response = Inr (PBool True)"
      by (auto simp: run try_request_handler_raises)
    from get_remote_access_status_response_True [OF d] r show ?thesis by blast
  qed
  have f: "\<exists>response setting. http_request E getRemoteDeviceSettings = Inr response
         \<and> py_getitem response (PInt 0) = Inr setting
         \<and> py_getitem setting (PStr ''currentValue'') = Inr (PStr ''false'')"
    if "fst (get_remote_access_status depth E c) = Inr (PBool False)"
  proof -
    from that obtain response where r: "http_request E getRemoteDeviceSettings = Inr response"
      and d: "get_remote_access_status_response response = Inr (PBool False)"
      by (auto simp: run try_request_handler_raises)
    from get_remote_access_status_response_False [OF d] r show ?thesis by blast
  qed
  have off: "\<exists>e. fst (get_remote_access_status depth E c) = Inl e"
    if "http_request E getRemoteDeviceSettings = Inr response"
      "py_getitem response (PInt 0) = Inr setting"
      "py_getitem setting (PStr ''currentValue'') = Inr (PStr ''off'')"
    using that get_remote_access_status_response_off [of response setting]
    by (simp add: run try_request_Inr)
  show ?thesis
  proof (intro conjI impI)
    assume "fst (get_remote_access_status depth E c) = Inr (PBool True)"
    then show "\<exists>response setting. http_request E getRemoteDeviceSettings = Inr response
         \<and> py_getitem response (PInt 0) = Inr setting
         \<and> py_getitem setting (PStr ''currentValue'') = Inr (PStr ''on'')" by (rule t)
  next
    assume "fst (get_remote_access_status depth E c) = Inr (PBool False)"
    then show "\<exists>response setting. http_request E getRemoteDeviceSettings = Inr response
         \<and> py_getitem response (PInt 0) = Inr setting
         \<and> py_getitem setting (PStr ''currentValue'') = Inr (PStr ''false'')" by (rule f)
  next
    assume "http_request E getRemoteDeviceSettings = Inr response
        \<and> py_getitem response (PInt 0) = Inr setting
        \<and> py_getitem setting (PStr ''currentValue'') = Inr (PStr ''off'')"
    then show "\<exists>e. fst (get_remote_access_status depth E c) = Inl e"
      using off by blast
  qed
qed

theorem get_remote_access_status_values_witness:
  "fst (get_remote_access_status 1
          (answering (Inr (PList [PDict [(PStr ''currentValue'', PStr ''on'')]])))
          initialized_client) = Inr (PBool True)
   \<and> (\<exists>response setting.
         http_request (answering (Inr (PList [PDict [(PStr ''currentValue'', PStr ''on'')]])))
           getRemoteDeviceSettings = Inr response
         \<and> py_getitem response (PInt 0) = Inr setting
         \<and> py_getitem setting (PStr ''currentValue'') = Inr (PStr ''on''))
   \<and> fst (get_remote_access_status 1
          (answering (Inr (PList [PDict [(PStr ''currentValue'', PStr ''false'')]])))
          initialized_client) = Inr (PBool False)
   \<and> (\<exists>response setting.
         http_request (answering (Inr (PList [PDict [(PStr ''currentValue'', PStr ''false'')]])))
           getRemoteDeviceSettings = Inr response
         \<and> py_getitem response (PInt 0) = Inr setting
         \<and> py_getitem setting (PStr ''currentValue'') = Inr (PStr ''false''))
   \<and> (\<exists>e. fst (get_remote_access_status 1
          (answering (Inr (PList [PDict [(PStr ''currentValue'', PStr ''off'')]])))
          initialized_client) = Inl e)"
proof -
  have 1: "fst (get_remote_access_status 1
          (answering (Inr (PList [PDict [(PStr ''currentValue'', PStr ''on'')]])))
          initialized_client) = Inr (PBool True)"
    by (simp add: get_remote_access_status_def gate_initialized_client
        try_request_Inr get_remote_access_status_response_def seq_index_def)
  note t = get_remote_access_status_values
      [of 1 "answering (Inr (PList [PDict [(PStr ''currentValue'', PStr ''on'')]]))"
         initialized_client]
  have 2: "\<exists>response setting.
         http_request (answering (Inr (PList [PDict [(PStr ''currentValue'', PStr ''on'')]])))
           getRemoteDeviceSettings = Inr response
         \<and> py_getitem response (PInt 0) = Inr setting
         \<and> py_getitem setting (PStr ''currentValue'') = Inr (PStr ''on'')"
    by (rule t [THEN conjunct1, THEN mp, OF 1])
  have 3: "fst (get_remote_access_status 1
          (answering (Inr (PList [PDict [(PStr ''currentValue'', PStr ''false'')]])))
          initialized_client) = Inr (PBool False)"
    by (simp add: get_remote_access_status_def gate_initialized_client
        try_request_Inr get_remote_access_status_response_def seq_index_def)
  note f = get_remote_access_status_values
      [of 1 "answering (Inr (PList [PDict [(PStr ''currentValue'', PStr ''false'')]]))"
         initialized_client]
  have 4: "\<exists>response setting.
         http_request (answering (Inr (PList [PDict [(PStr ''currentValue'', PStr ''false'')]])))
           getRemoteDeviceSettings = Inr response
         \<and> py_getitem response (PInt 0) = Inr setting
         \<and> py_getitem setting (PStr ''currentValue'') = Inr (PStr ''false'')"
    by (rule f [THEN conjunct2, THEN conjunct1, THEN mp, OF 3])
  note u = get_remote_access_status_values
      [of 1 "answering (Inr (PList [PDict [(PStr ''currentValue'', PStr ''off'')]]))"
         initialized_client "PList [PDict [(PStr ''currentValue'', PStr ''off'')]]"
         "PDict [(PStr ''currentValue'', PStr ''off'')]"]
  have h: "http_request (answering (Inr (PList [PDict [(PStr ''currentValue'', PStr ''off'')]])))
        getRemoteDeviceSettings = Inr (PList [PDict [(PStr ''currentValue'', PStr ''off'')]])
      \<and> py_getitem (PList [PDict [(PStr ''currentValue'', PStr ''off'')]]) (PInt 0)
          = Inr (PDict [(PStr ''currentValue'', PStr ''off'')])
      \<and> py_getitem (PDict [(PStr ''currentValue'', PStr ''off'')]) (PStr ''currentValue'')
          = Inr (PStr ''off'')"
    by (simp add: seq_index_def)
  have 5: "\<exists>e. fst (get_remote_access_status 1
          (answering (Inr (PList [PDict [(PStr ''currentValue'', PStr ''off'')]])))
          initialized_client) = Inl e"
    by (rule u [THEN conjunct2, THEN conjunct2, THEN mp, OF h])
  from 1 2 3 4 5 show ?thesis by (intro conjI)
qed

section \<open>Empty list responses\<close>

lemma get_sound_settings_response_empty:
  "get_sound_settings_response E (PList []) = Inl IndexError"
  by (simp add: get_sound_settings_response_def seq_index_def)

lemma get_network_settings_response_empty:
  "interface \<noteq> PNone \<Longrightarrow> get_network_settings_response E interface (PList []) = Inl IndexError"
  by (simp add: get_network_settings_response_def seq_index_def)

text \<open>
  Claim C8. An empty list passes the checks of the response's shape, and the index
  access that follows is out of range: \<^verbatim>\<open>get_sound_settings\<close> evaluates
  \<^verbatim>\<open>response[0]\<close>, and \<^verbatim>\<open>get_network_settings\<close>, called with an interface that is
  not \<^verbatim>\<open>None\<close> and for which the device is asked, evaluates
  \<^verbatim>\<open>network_interfaces[0]\<close>. In both the call ends in \<^verbatim>\<open>IndexError\<close>, not in
  \<^verbatim>\<open>BraviaApiError\<close>, after the one request.
\<close>

theorem empty_list_IndexError:
  "(initialized c \<and> http_request E getSoundSettings = Inr (PList []) \<longrightarrow>
      get_sound_settings depth E c
        = (Inl IndexError, c\<lparr>sent := sent c @ [getSoundSettings]\<rparr>))
   \<and> (initialized c \<and> interface \<noteq> PNone
        \<and> request_interface = (if truthy interface then interface else PStr [])
        \<and> py_type request_interface = T_str
        \<and> http_request E (getNetworkSettings request_interface) = Inr (PList []) \<longrightarrow>
      get_network_settings depth E interface c
        = (Inl IndexError, c\<lparr>sent := sent c @ [getNetworkSettings request_interface]\<rparr>))"
proof (intro conjI impI; elim conjE)
  assume "initialized c" "http_request E getSoundSettings = Inr (PList [])"
  then show "get_sound_settings depth E c
        = (Inl IndexError, c\<lparr>sent := sent c @ [getSoundSettings]\<rparr>)"
    by (simp add: get_sound_settings_def gate_initialized try_request_Inr
        get_sound_settings_response_empty)
next
  assume "initialized c" "interface \<noteq> PNone"
    "request_interface = (if truthy interface then interface else PStr [])"
    "py_type request_interface = T_str"
    "http_request E (getNetworkSettings request_interface) = Inr (PList [])"
  then show "get_network_settings depth E interface c
        = (Inl IndexError, c\<lparr>sent := sent c @ [getNetworkSettings request_interface]\<rparr>)"
    by (simp add: get_network_settings_def gate_initialized try_request_Inr
        get_network_settings_response_empty Let_def)
qed

theorem empty_list_IndexError_witness:
  "get_sound_settings 1 (answering (Inr (PList []))) initialized_client
     = (Inl IndexError, initialized_client\<lparr>sent := sent initialized_client @ [getSoundSettings]\<rparr>)
   \<and> get_network_settings 1 (answering (Inr (PList []))) (PStr ''eth0'') initialized_client
     = (Inl IndexError,
        initialized_client\<lparr>sent := sent initialized_client @ [getNetworkSettings (PStr ''eth0'')]\<rparr>)"
proof -
  note t = empty_list_IndexError [where c = initialized_client
      and E = "answering (Inr (PList []))" and interface = "PStr ''eth0''"
      and request_interface = "PStr ''eth0''" and depth = 1]
  have i: "initialized initialized_client" by (simp add: initialized_client_def)
  have h1: "initialized initialized_client
      \<and> http_request (answering (Inr (PList []))) getSoundSettings = Inr (PList [])"
    using i by simp
  have h2: "initialized initialized_client \<and> PStr ''eth0'' \<noteq> PNone
      \<and> PStr ''eth0'' = (if truthy (PStr ''eth0'') then PStr ''eth0'' else PStr [])
      \<and> py_type (PStr ''eth0'') = T_str
      \<and> http_request (answering (Inr (PList []))) (getNetworkSettings (PStr ''eth0''))
          = Inr (PList [])"
    using i by simp
  from t [THEN conjunct1, THEN mp, OF h1] t [THEN conjunct2, THEN mp, OF h2]
  show ?thesis by (rule conjI)
qed

section \<open>Relative volume steps\<close>

lemma is_digit_minus [simp]: "\<not> is_digit (CHR ''-'')"
  by (simp add: is_digit_def)

lemma volume_format_two_signs [simp]: "\<not> volume_format (sign # CHR ''-'' # rest)"
  by (simp add: volume_format_def)

lemma str_int_negative: "n < 0 \<Longrightarrow> str_int n = CHR ''-'' # str_nat (nat (- n))"
  by (simp add: str_int_def)

text \<open>
  Claim C9. For a negative integer \<open>n\<close>, \<^verbatim>\<open>increase_volume(n)\<close> and
  \<^verbatim>\<open>decrease_volume(n)\<close> build a string with two signs, which fails the format check
  of \<^verbatim>\<open>set_volume\<close>, and neither sends a request. The check is what the code does
  on an initialized client, where both raise \<^verbatim>\<open>ValueError\<close>. On a client that is not
  initialized, as every new client is, the calls never reach the check: \<^verbatim>\<open>set_volume\<close>
  starts with \<^verbatim>\<open>initialize\<close>, and both calls end in \<^verbatim>\<open>RecursionError\<close>. The device
  argument is \<^verbatim>\<open>None\<close>, the default, or any member of \<^verbatim>\<open>VolumeDevice\<close>.
\<close>

theorem negative_step_outcome:
  "n < 0 \<and> (device = PNone \<or> py_type device = T_VolumeDevice) \<longrightarrow>
     ''+'' @ str_int n = CHR ''+'' # CHR ''-'' # str_nat (nat (- n))
     \<and> ''-'' @ str_int n = CHR ''-'' # CHR ''-'' # str_nat (nat (- n))
     \<and> \<not> volume_format (''+'' @ str_int n) \<and> \<not> volume_format (''-'' @ str_int n)
     \<and> (\<not> initialized c \<longrightarrow>
          increase_volume depth E (PInt n) show_ui device c = (Inl RecursionError, c)
          \<and> decrease_volume depth E (PInt n) show_ui device c = (Inl RecursionError, c))
     \<and> (initialized c \<longrightarrow>
          increase_volume depth E (PInt n) show_ui device c = (Inl ValueError, c)
          \<and> decrease_volume depth E (PInt n) show_ui device c = (Inl ValueError, c))"
proof (cases "initialized c")
  case True
  then show ?thesis
    by (auto simp: increase_volume_def decrease_volume_def set_volume_def gate_initialized
        str_int_negative)
next
  case False
  then show ?thesis
    by (auto simp: increase_volume_def decrease_volume_def set_volume_def gate_not_initialized
        str_int_negative)
qed

theorem negative_step_outcome_witness:
  "(-3::int) < 0 \<and> \<not> initialized new_client
   \<and> increase_volume 1000 (answering (Inr PNone)) (PInt (-3)) (PBool True) PNone new_client
       = (Inl RecursionError, new_client)
   \<and> decrease_volume 1000 (answering (Inr PNone)) (PInt (-3)) (PBool True) PNone new_client
       = (Inl RecursionError, new_client)
   \<and> initialized initialized_client
   \<and> increase_volume 1000 (answering (Inr PNone)) (PInt (-3)) (PBool True) PNone
        initialized_client = (Inl ValueError, initialized_client)
   \<and> decrease_volume 1000 (answering (Inr PNone)) (PInt (-3)) (PBool True) PNone
        initialized_client = (Inl ValueError, initialized_client)"
proof -
  have i: "initialized initialized_client" by (simp add: initialized_client_def)
  have n: "\<not> initialized new_client" by (simp add: new_client_def)
  have h: "(-3::int) < 0 \<and> ((PNone::pyval) = PNone \<or> py_type PNone = T_VolumeDevice)" by simp
  note t = negative_step_outcome [where n = "-3" and device = PNone
      and c = initialized_client and depth = 1000 and E = "answering (Inr PNone)"
      and show_ui = "PBool True", THEN mp, OF h]
  note u = negative_step_outcome [where n = "-3" and device = PNone
      and c = new_client and depth = 1000 and E = "answering (Inr PNone)"
      and show_ui = "PBool True", THEN mp, OF h]
  from t u i n show ?thesis by simp
qed

section \<open>The checks of set_volume\<close>

text \<open>
  Claim C7. \<^verbatim>\<open>set_volume\<close> is meant to check its arguments and then to send one
  request. On an initialized client it does: a device that is neither \<^verbatim>\<open>None\<close> nor
  a \<^verbatim>\<open>VolumeDevice\<close> raises \<^verbatim>\<open>TypeError\<close> and \<^verbatim>\<open>VolumeDevice.UNKNOWN\<close> raises
  \<^verbatim>\<open>ValueError\<close>; with the device \<^verbatim>\<open>None\<close>, \<^verbatim>\<open>SPEAKERS\<close> or \<^verbatim>\<open>HEADPHONES\<close>, a
  volume that is neither an integer nor a string raises \<^verbatim>\<open>TypeError\<close> and a string
  that does not match the format raises \<^verbatim>\<open>ValueError\<close>; none of these calls sends a
  request; and a call with such a device, an integer or a matching string and a
  boolean \<^verbatim>\<open>show_ui\<close> sends one request, whose parameters are the target (the empty
  string, \<^verbatim>\<open>speaker\<close> or \<^verbatim>\<open>headphone\<close>), the volume as \<^verbatim>\<open>str(volume)\<close> and \<^verbatim>\<open>ui\<close>
  as \<^verbatim>\<open>on\<close> or \<^verbatim>\<open>off\<close>. On a client that is not initialized, as every new client
  is, none of the checks is reached: the first statement is \<^verbatim>\<open>initialize\<close>, and
  every call, valid or not, ends in \<^verbatim>\<open>RecursionError\<close> with no request sent.
\<close>

theorem set_volume_outcome:
  "(\<not> initialized c \<longrightarrow>
      set_volume depth E volume show_ui device c = (Inl RecursionError, c))
   \<and> (initialized c \<longrightarrow>
     (device \<noteq> PNone \<and> py_type device \<noteq> T_VolumeDevice \<longrightarrow>
        set_volume depth E volume show_ui device c = (Inl TypeError, c))
   \<and> (device = PVolumeDevice VolumeDevice_UNKNOWN \<longrightarrow>
        set_volume depth E volume show_ui device c = (Inl ValueError, c))
   \<and> ((device = PNone \<or> device = PVolumeDevice VolumeDevice_SPEAKERS
          \<or> device = PVolumeDevice VolumeDevice_HEADPHONES)
        \<and> py_type volume \<noteq> T_int \<and> py_type volume \<noteq> T_str \<longrightarrow>
        set_volume depth E volume show_ui device c = (Inl TypeError, c))
   \<and> ((device = PNone \<or> device = PVolumeDevice VolumeDevice_SPEAKERS
          \<or> device = PVolumeDevice VolumeDevice_HEADPHONES)
        \<and> volume = PStr s \<and> \<not> volume_format s \<longrightarrow>
        set_volume depth E volume show_ui device c = (Inl ValueError, c))
   \<and> ((device = PNone \<or> device = PVolumeDevice VolumeDevice_SPEAKERS
          \<or> device = PVolumeDevice VolumeDevice_HEADPHONES)
        \<and> (volume = PInt i \<or> volume = PStr s \<and> volume_format s)
        \<and> show_ui = PBool ui \<longrightarrow>
        snd (set_volume depth E volume show_ui device c)
          = c\<lparr>sent := sent c @
              [\<lparr>endpoint = ''audio'', method_name = ''setAudioVolume'',
                params = Some (PDict
                  [(PStr ''target'',
                    PStr (if device = PNone then []
                          else if device = PVolumeDevice VolumeDevice_SPEAKERS then ''speaker''
                          else ''headphone'')),
                   (PStr ''volume'', PStr (py_str volume)),
                   (PStr ''ui'', PStr (if ui then ''on'' else ''off''))]),
                version = ''1.2''\<rparr>]\<rparr>))"
proof (cases "initialized c")
  case False
  then show ?thesis by (simp add: set_volume_def gate_not_initialized)
next
  case True
  then show ?thesis
    by (auto simp: set_volume_def gate_initialized volume_target_def
        valid_requested_devices_def try_request_sent setAudioVolume_def)
qed

theorem set_volume_outcome_witness:
  "\<not> initialized new_client
   \<and> set_volume 1000 (answering (Inr PNone)) (PInt 5) (PBool True) PNone new_client
       = (Inl RecursionError, new_client)
   \<and> set_volume 1000 (answering (Inr PNone)) PNone (PBool True) PNone new_client
       = (Inl RecursionError, new_client)
   \<and> initialized initialized_client
   \<and> set_volume 1 (answering (Inr PNone)) (PInt 5) (PBool True) (PStr ''tv'') initialized_client
       = (Inl TypeError, initialized_client)
   \<and> set_volume 1 (answering (Inr PNone)) (PInt 5) (PBool True)
        (PVolumeDevice VolumeDevice_UNKNOWN) initialized_client
       = (Inl ValueError, initialized_client)
   \<and> set_volume 1 (answering (Inr PNone)) PNone (PBool True) PNone initialized_client
       = (Inl TypeError, initialized_client)
   \<and> set_volume 1 (answering (Inr PNone)) (PStr ''5'') (PBool True) PNone initialized_client
       = (Inl ValueError, initialized_client)
   \<and> snd (set_volume 1 (answering (Inr PNone)) (PInt (-15)) (PBool False)
        (PVolumeDevice VolumeDevice_HEADPHONES) initialized_client)
       = initialized_client\<lparr>sent := sent initialized_client @
              [\<lparr>endpoint = ''audio'', method_name = ''setAudioVolume'',
                params = Some (PDict
                  [(PStr ''target'', PStr ''headphone''),
                   (PStr ''volume'', PStr ''-15''),
                   (PStr ''ui'', PStr ''off'')]),
                version = ''1.2''\<rparr>]\<rparr>"
proof -
  have i: "initialized initialized_client" by (simp add: initialized_client_def)
  have n: "\<not> initialized new_client" by (simp add: new_client_def)
  have f: "\<not> volume_format ''5''" by (simp add: volume_format_def)
  have m: "str_int (-15) = ''-15''" by (simp add: str_int_def digit_char_def)
  note x = set_volume_outcome [where c = new_client and depth = 1000
      and E = "answering (Inr PNone)" and volume = "PInt 5" and show_ui = "PBool True"
      and device = PNone, THEN conjunct1, THEN mp, OF n]
  note y = set_volume_outcome [where c = new_client and depth = 1000
      and E = "answering (Inr PNone)" and volume = PNone and show_ui = "PBool True"
      and device = PNone, THEN conjunct1, THEN mp, OF n]
  note a = set_volume_outcome [where c = initialized_client and depth = 1
      and E = "answering (Inr PNone)" and volume = "PInt 5" and show_ui = "PBool True"
      and device = "PStr ''tv''", THEN conjunct2, THEN mp, OF i, THEN conjunct1]
  note b = set_volume_outcome [where c = initialized_client and depth = 1
      and E = "answering (Inr PNone)" and volume = "PInt 5" and show_ui = "PBool True"
      and device = "PVolumeDevice VolumeDevice_UNKNOWN", THEN conjunct2, THEN mp, OF i,
      THEN conjunct2, THEN conjunct1]
  note c = set_volume_outcome [where c = initialized_client and depth = 1
      and E = "answering (Inr PNone)" and volume = PNone and show_ui = "PBool True"
      and device = PNone, THEN conjunct2, THEN mp, OF i,
      THEN conjunct2, THEN conjunct2, THEN conjunct1]
  note d = set_volume_outcome [where c = initialized_client and depth = 1
      and E = "answering (Inr PNone)" and volume = "PStr ''5''" and s = "''5''"
      and show_ui = "PBool True" and device = PNone, THEN conjunct2, THEN mp, OF i,
      THEN conjunct2, THEN conjunct2, THEN conjunct2, THEN conjunct1]
  note e = set_volume_outcome [where c = initialized_client and depth = 1
      and E = "answering (Inr PNone)" and volume = "PInt (-15)" and i = "-15"
      and show_ui = "PBool False" and ui = False
      and device = "PVolumeDevice VolumeDevice_HEADPHONES", THEN conjunct2, THEN mp, OF i,
      THEN conjunct2, THEN conjunct2, THEN conjunct2, THEN conjunct2]
  from i n x y a b c d e f m show ?thesis by simp
qed

section \<open>Error codes from the device\<close>

lemma requests_of_initialized: "requests_of depth E op c = [r] \<Longrightarrow> initialized c"
  by (rule ccontr) (simp add: requests_of_def perform_not_initialized)

lemma try_request_error_code:
  "http_request E r = Inl (HttpError error_code) \<Longrightarrow>
   fst (try_request E r handler cont c) = handler error_code"
  by (simp add: try_request_def)

lemma plain_request_error:
  "http_request E r = Inl e \<Longrightarrow> fst (plain_request E r cont c) = Inl e"
  by (simp add: plain_request_def)

lemma http_error_outcome:
  assumes r: "requests_of depth E op c = [r]"
    and e: "http_request E r = Inl (HttpError error_code)"
  shows "fst (perform depth E op c) =
      (if op = Get_speaker_settings \<or> op = Get_volume_information \<or> op = Mute
          \<or> op = Unmute \<or> (\<exists>m. op = Set_mute m)
       then Inl (HttpError error_code)
       else if op = Get_sound_settings \<and> error_code = Some ErrorCode_ILLEGAL_ARGUMENT
          \<or> (\<exists>interface. op = Get_network_settings interface)
             \<and> error_code = Some (ILLEGAL_ARGUMENT_value E)
          \<or> op = Get_current_time \<and> error_code = Some (ILLEGAL_STATE_value E)
       then Inr PNone
       else Inl BraviaApiError)"
proof -
  from r have i: "initialized c" by (rule requests_of_initialized)
  from r [unfolded requests_of_def] e i show ?thesis
    by (cases op)
      (auto simp: operation_defs gate_initialized try_request_sent plain_request_sent
        try_request_error_code plain_request_error Let_def
        split: if_splits sum.splits pyval.splits)
qed

lemma requests_of_initialized_client:
  "requests_of depth E Get_power_status initialized_client = [getPowerStatus]"
  "requests_of depth E Get_sound_settings initialized_client = [getSoundSettings]"
  "requests_of depth E Get_current_time initialized_client = [getCurrentTime]"
  "requests_of depth E Get_volume_information initialized_client = [getVolumeInformation]"
  "requests_of depth E Get_speaker_settings initialized_client = [getSpeakerSettings]"
  "requests_of depth E Mute initialized_client = [setAudioMute (PBool True)]"
  "requests_of depth E (Get_network_settings PNone) initialized_client
     = [getNetworkSettings (PStr [])]"
  by (simp_all add: requests_of_def operation_defs gate_initialized_client try_request_sent
      plain_request_sent)

text \<open>
  Claim C3, as it is stated, asks that an operation raises whenever the device returns
  an error code. \<^verbatim>\<open>get_sound_settings\<close> returns \<^verbatim>\<open>None\<close> when the code is
  \<^verbatim>\<open>ILLEGAL_ARGUMENT\<close>: the source takes it as "the requested target does not exist".
\<close>

theorem error_code_returns_None_counterexample:
  "http_request (answering (Inl (HttpError (Some 3)))) getSoundSettings
     = Inl (HttpError (Some 3))
   \<and> perform 1 (answering (Inl (HttpError (Some 3)))) Get_sound_settings initialized_client
     = (Inr PNone, initialized_client\<lparr>sent := sent initialized_client @ [getSoundSettings]\<rparr>)"
  by (simp add: get_sound_settings_def gate_initialized_client try_request_HttpError
      ErrorCode_ILLEGAL_ARGUMENT_def)

text \<open>
  Claim C3, amended. Whenever an operation of \<^verbatim>\<open>audio.py\<close> or \<^verbatim>\<open>system.py\<close> has
  sent its request and the device answers it with an error code, the outcome is this:
  \<^verbatim>\<open>get_speaker_settings\<close>, \<^verbatim>\<open>get_volume_information\<close>, \<^verbatim>\<open>set_mute\<close>, \<^verbatim>\<open>mute\<close>
  and \<^verbatim>\<open>unmute\<close> do not catch the \<^verbatim>\<open>HttpError\<close>, which reaches the caller as it
  is; \<^verbatim>\<open>get_sound_settings\<close> and \<^verbatim>\<open>get_network_settings\<close> return \<^verbatim>\<open>None\<close> when
  the code is \<^verbatim>\<open>ILLEGAL_ARGUMENT\<close>, and \<^verbatim>\<open>get_current_time\<close> returns \<^verbatim>\<open>None\<close>
  when it is \<^verbatim>\<open>ILLEGAL_STATE\<close>; in every other case the operation raises
  \<^verbatim>\<open>BraviaApiError\<close>.
\<close>

theorem error_code_outcome:
  "requests_of depth E op c = [r] \<and> http_request E r = Inl (HttpError (Some code)) \<longrightarrow>
     fst (perform depth E op c) =
      (if op = Get_speaker_settings \<or> op = Get_volume_information \<or> op = Mute
          \<or> op = Unmute \<or> (\<exists>m. op = Set_mute m)
       then Inl (HttpError (Some code))
       else if op = Get_sound_settings \<and> code = ErrorCode_ILLEGAL_ARGUMENT
          \<or> (\<exists>interface. op = Get_network_settings interface)
             \<and> code = ILLEGAL_ARGUMENT_value E
          \<or> op = Get_current_time \<and> code = ILLEGAL_STATE_value E
       then Inr PNone
       else Inl BraviaApiError)"
proof (intro impI, elim conjE)
  assume "requests_of depth E op c = [r]" "http_request E r = Inl (HttpError (Some code))"
  from http_error_outcome [OF this] show "fst (perform depth E op c) =
      (if op = Get_speaker_settings \<or> op = Get_volume_information \<or> op = Mute
          \<or> op = Unmute \<or> (\<exists>m. op = Set_mute m)
       then Inl (HttpError (Some code))
       else if op = Get_sound_settings \<and> code = ErrorCode_ILLEGAL_ARGUMENT
          \<or> (\<exists>interface. op = Get_network_settings interface)
             \<and> code = ILLEGAL_ARGUMENT_value E
          \<or> op = Get_current_time \<and> code = ILLEGAL_STATE_value E
       then Inr PNone
       else Inl BraviaApiError)"
    by simp
qed

theorem error_code_outcome_witness:
  "requests_of 1 (answering (Inl (HttpError (Some 3)))) (Get_network_settings PNone)
     initialized_client = [getNetworkSettings (PStr [])]
   \<and> http_request (answering (Inl (HttpError (Some 3)))) (getNetworkSettings (PStr []))
     = Inl (HttpError (Some 3))
   \<and> fst (perform 1 (answering (Inl (HttpError (Some 7)))) Get_power_status initialized_client)
     = Inl BraviaApiError
   \<and> fst (perform 1 (answering (Inl (HttpError (Some 3)))) Get_sound_settings
        initialized_client) = Inr PNone
   \<and> fst (perform 1 (answering (Inl (HttpError (Some 7)))) Get_sound_settings
        initialized_client) = Inl BraviaApiError
   \<and> fst (perform 1 (answering (Inl (HttpError (Some 3)))) (Get_network_settings PNone)
        initialized_client) = Inr PNone
   \<and> fst (perform 1 (answering (Inl (HttpError (Some 7)))) (Get_network_settings PNone)
        initialized_client) = Inl BraviaApiError
   \<and> fst (perform 1 (answering (Inl (HttpError (Some 7)))) Get_current_time
        initialized_client) = Inr PNone
   \<and> fst (perform 1 (answering (Inl (HttpError (Some 3)))) Get_current_time
        initialized_client) = Inl BraviaApiError
   \<and> fst (perform 1 (answering (Inl (HttpError (Some 7)))) Get_volume_information
        initialized_client) = Inl (HttpError (Some 7))
   \<and> fst (perform 1 (answering (Inl (HttpError (Some 7)))) Get_speaker_settings
        initialized_client) = Inl (HttpError (Some 7))
   \<and> fst (perform 1 (answering (Inl (HttpError (Some 7)))) Mute initialized_client)
        = Inl (HttpError (Some 7))"
proof -
  have t: "fst (perform 1 (answering (Inl (HttpError (Some code)))) op initialized_client) =
      (if op = Get_speaker_settings \<or> op = Get_volume_information \<or> op = Mute
          \<or> op = Unmute \<or> (\<exists>m. op = Set_mute m)
       then Inl (HttpError (Some code))
       else if op = Get_sound_settings \<and> code = ErrorCode_ILLEGAL_ARGUMENT
          \<or> (\<exists>interface. op = Get_network_settings interface)
             \<and> code = ILLEGAL_ARGUMENT_value (answering (Inl (HttpError (Some code))))
          \<or> op = Get_current_time
             \<and> code = ILLEGAL_STATE_value (answering (Inl (HttpError (Some code))))
       then Inr PNone
       else Inl BraviaApiError)"
    if "requests_of 1 (answering (Inl (HttpError (Some code)))) op initialized_client = [r]"
    for code op r
    using that
      error_code_outcome [where depth = 1 and E = "answering (Inl (HttpError (Some code)))"
        and op = op and c = initialized_client and r = r and code = code]
    by simp
  have s: "ILLEGAL_ARGUMENT_value (answering a) = 3" "ILLEGAL_STATE_value (answering a) = 7"
    for a by (simp_all add: answering_def)
  show ?thesis
    using t [OF requests_of_initialized_client(1), of 7]
      t [OF requests_of_initialized_client(2), of 3]
      t [OF requests_of_initialized_client(2), of 7]
      t [OF requests_of_initialized_client(7), of 3]
      t [OF requests_of_initialized_client(7), of 7]
      t [OF requests_of_initialized_client(3), of 7]
      t [OF requests_of_initialized_client(3), of 3]
      t [OF requests_of_initialized_client(4), of 7]
      t [OF requests_of_initialized_client(5), of 7]
      t [OF requests_of_initialized_client(6), of 7]
    by (simp add: s ErrorCode_ILLEGAL_ARGUMENT_def requests_of_initialized_client
        del: perform.simps)
qed


section \<open>Enumeration values outside the tables\<close>



















section \<open>The error types at the public interface\<close>









end
